theory Spec2Isabelle
  imports Complex_Main "HOL-Library.AList"
begin

section \<open>Python values shared by the risk and execution modules\<close>

text \<open>
  Python floats are modelled as real numbers: every arithmetic operation of the source is
  the exact operation on \<^typ>\<open>real\<close>, and a division whose divisor is zero is the
  \<open>ZeroDivisionError\<close> that Python raises for floats. Python integers are \<^typ>\<open>int\<close>.
  An exception is a value of \<open>py_error\<close>; a function that can raise returns
  \<open>py_error + 'a\<close> with \<open>Inl\<close> for the raised exception.
\<close>

datatype py_error =
    ZeroDivisionError
  | KeyError
  | TypeError
  | ValueError
  | AttributeError
  | OSError
  | PermissionError
  | JSONDecodeError
  | ExchangeError string
  | CancelledError

text \<open>
  \<open>except Exception\<close> catches every exception class except those deriving directly from
  \<open>BaseException\<close>; of the exceptions modelled here only \<open>asyncio.CancelledError\<close> is one.
\<close>

definition is_Exception :: "py_error \<Rightarrow> bool" where
  "is_Exception e = (e \<noteq> CancelledError)"

definition bind_err :: "py_error + 'a \<Rightarrow> ('a \<Rightarrow> py_error + 'b) \<Rightarrow> py_error + 'b" where
  "bind_err r f = (case r of Inl e \<Rightarrow> Inl e | Inr v \<Rightarrow> f v)"

text \<open>\<open>a / b\<close> on Python floats.\<close>

definition py_div :: "real \<Rightarrow> real \<Rightarrow> py_error + real" where
  "py_div a b = (if b = 0 then Inl ZeroDivisionError else Inr (a / b))"

text \<open>
  \<open>round(x, nd)\<close>: the nearest multiple of \<open>10^-nd\<close>, a tie going to the even multiple.
\<close>

definition py_round :: "real \<Rightarrow> nat \<Rightarrow> real" where
  "py_round x nd =
     (let y = x * 10 ^ nd;
          f = \<lfloor>y\<rfloor>;
          d = y - of_int f
      in of_int (if d < 1 / 2 then f
                 else if 1 / 2 < d then f + 1
                 else if even f then f else f + 1) / 10 ^ nd)"

text \<open>\<open>int(x)\<close> on a float truncates towards zero.\<close>

definition py_trunc :: "real \<Rightarrow> int" where
  "py_trunc r = (if 0 \<le> r then \<lfloor>r\<rfloor> else \<lceil>r\<rceil>)"

subsection \<open>JSON documents and the files that hold them\<close>

datatype json =
    JNull
  | JBool bool
  | JNum real
  | JStr string
  | JArr "json list"
  | JObj "(string \<times> json) list"

text \<open>
  What a path of the data directory holds. \<open>Missing\<close>: no such file. \<open>Inaccessible\<close>:
  the path cannot be examined, for instance because the data directory denies search
  permission, so that \<open>stat\<close> and \<open>open\<close> raise \<open>PermissionError\<close>. \<open>Unreadable\<close>: the
  file exists but \<open>open\<close> or \<open>read\<close> raises \<open>OSError\<close>. \<open>Empty\<close>: a file of zero bytes.
  \<open>Garbage\<close>: bytes that \<open>json.load\<close> rejects. \<open>Doc j\<close>: a text that \<open>json.load\<close> parses
  to \<open>j\<close>.
\<close>

datatype disk_file = Missing | Inaccessible | Unreadable | Empty | Garbage | Doc json

text \<open>
  \<open>Path.exists()\<close>: it calls \<open>stat\<close> and returns False for the errors that mean the path
  is not there (\<open>ENOENT\<close>, \<open>ENOTDIR\<close>, \<open>EBADF\<close>, \<open>ELOOP\<close>); any other \<open>OSError\<close> is
  raised again.
\<close>

fun file_exists :: "disk_file \<Rightarrow> py_error + bool" where
  "file_exists Missing = Inr False"
| "file_exists Inaccessible = Inl PermissionError"
| "file_exists _ = Inr True"

text \<open>\<open>with open(path, 'r') as f: json.load(f)\<close>\<close>

fun json_load :: "disk_file \<Rightarrow> py_error + json" where
  "json_load Missing = Inl OSError"
| "json_load Inaccessible = Inl PermissionError"
| "json_load Unreadable = Inl OSError"
| "json_load Empty = Inl JSONDecodeError"
| "json_load Garbage = Inl JSONDecodeError"
| "json_load (Doc j) = Inr j"

text \<open>
  The part of the host the modules read: the current UTC date as \<open>strftime('%Y-%m-%d')\<close>
  prints it, what \<open>data_dir.mkdir(exist_ok=True)\<close> raises (\<open>None\<close> when it returns),
  whether files of the data directory can be opened for writing, and the library
  conversions \<open>float(str)\<close> and \<open>int(str)\<close> (\<open>None\<close> where they raise \<open>ValueError\<close>).
\<close>

record host =
  today :: string
  mkdir_error :: "py_error option"
  writable :: bool
  str_to_float :: "string \<Rightarrow> real option"
  str_to_int :: "string \<Rightarrow> int option"

text \<open>\<open>with open(path, 'w') as f: json.dump(data, f, indent=2)\<close>\<close>

definition json_dump :: "host \<Rightarrow> json \<Rightarrow> py_error + disk_file" where
  "json_dump h data = (if writable h then Inr (Doc data) else Inl OSError)"

text \<open>\<open>d.get(k, default)\<close>, \<open>d[k]\<close> and \<open>d[k] = v\<close> on a value that \<open>json.load\<close> returned.\<close>

fun py_get :: "json \<Rightarrow> string \<Rightarrow> json \<Rightarrow> py_error + json" where
  "py_get (JObj kvs) k dflt = Inr (case map_of kvs k of None \<Rightarrow> dflt | Some v \<Rightarrow> v)"
| "py_get _ k dflt = Inl AttributeError"

fun py_getitem :: "json \<Rightarrow> string \<Rightarrow> py_error + json" where
  "py_getitem (JObj kvs) k = (case map_of kvs k of None \<Rightarrow> Inl KeyError | Some v \<Rightarrow> Inr v)"
| "py_getitem _ k = Inl TypeError"

fun py_setitem :: "json \<Rightarrow> string \<Rightarrow> json \<Rightarrow> py_error + json" where
  "py_setitem (JObj kvs) k v = Inr (JObj (AList.update k v kvs))"
| "py_setitem _ k v = Inl TypeError"

fun py_float :: "host \<Rightarrow> json \<Rightarrow> py_error + real" where
  "py_float h (JNum r) = Inr r"
| "py_float h (JBool b) = Inr (if b then 1 else 0)"
| "py_float h (JStr s) = (case str_to_float h s of None \<Rightarrow> Inl ValueError | Some r \<Rightarrow> Inr r)"
| "py_float h _ = Inl TypeError"

fun py_int :: "host \<Rightarrow> json \<Rightarrow> py_error + int" where
  "py_int h (JNum r) = Inr (py_trunc r)"
| "py_int h (JBool b) = Inr (if b then 1 else 0)"
| "py_int h (JStr s) = (case str_to_int h s of None \<Rightarrow> Inl ValueError | Some i \<Rightarrow> Inr i)"
| "py_int h _ = Inl TypeError"

section \<open>modules/risk.py: RiskManager\<close>

text \<open>
  The configuration dictionary: a key that is absent is \<open>None\<close>, and \<open>config.get\<close> then
  takes the default written in \<open>__init__\<close>.
\<close>

record risk_config =
  cfg_account_balance :: "real option"
  cfg_risk_percent :: "real option"
  cfg_max_spread_points :: "real option"
  cfg_max_daily_loss :: "real option"
  cfg_max_consecutive_losses :: "int option"
  cfg_exchange_min_lot_size :: "real option"

text \<open>
  The object's attributes. \<open>daily_pnl_file\<close> stands for what the path
  \<open>data_dir / "daily_pnl.json"\<close> holds on disk.
\<close>

record RiskManager =
  account_balance :: real
  risk_percent :: real
  max_spread_points :: real
  max_daily_loss_pct :: real
  max_consecutive_losses :: int
  exchange_min_lot_size :: real
  daily_pnl_file :: disk_file
  consecutive_loss_counter :: int
  daily_loss_accumulation :: real
  shutdown_required :: bool
  shutdown_reason :: string

text \<open>
  The second component of the pairs that the circuit breakers return is an f-string; it
  is kept as the template with the values it prints.
\<close>

datatype reason =
    NoReason
  | DailyLossLimitExceeded real real
  | ConsecutiveLossLimitReached int int

text \<open>
  A method's outcome: the raised exception or the returned value, and the object after
  the call (attributes assigned before an exception stay assigned).
\<close>

type_synonym 'a outcome = "(py_error + 'a) \<times> RiskManager"

definition fresh_daily_pnl :: "host \<Rightarrow> json" where
  "fresh_daily_pnl h =
     JObj [(''date'', JStr (today h)),
           (''cumulative_pnl'', JNum 0),
           (''trades_today'', JNum 0),
           (''winning_trades'', JNum 0),
           (''losing_trades'', JNum 0)]"

definition save_daily_pnl :: "host \<Rightarrow> json \<Rightarrow> RiskManager \<Rightarrow> unit outcome" where
  "save_daily_pnl h data s =
     (case json_dump h data of
        Inr f \<Rightarrow> (Inr (), s\<lparr>daily_pnl_file := f\<rparr>)
      | Inl e \<Rightarrow> if is_Exception e then (Inr (), s) else (Inl e, s))"

definition reset_daily_pnl :: "host \<Rightarrow> RiskManager \<Rightarrow> unit outcome" where
  "reset_daily_pnl h s = save_daily_pnl h (fresh_daily_pnl h) s"

text \<open>
  The body of the \<open>try\<close> in \<open>_load_daily_pnl\<close>, up to the assignment or the reset.
\<close>

definition load_daily_pnl_try :: "host \<Rightarrow> RiskManager \<Rightarrow> unit outcome" where
  "load_daily_pnl_try h s =
     (case json_load (daily_pnl_file s) of
        Inl e \<Rightarrow> (Inl e, s)
      | Inr data \<Rightarrow>
          (case py_get data ''date'' JNull of
             Inl e \<Rightarrow> (Inl e, s)
           | Inr d \<Rightarrow>
               if d = JStr (today h) then
                 (case bind_err (py_get data ''cumulative_pnl'' (JNum 0)) (py_float h) of
                    Inl e \<Rightarrow> (Inl e, s)
                  | Inr x \<Rightarrow> (Inr (), s\<lparr>daily_loss_accumulation := x\<rparr>))
               else reset_daily_pnl h (s\<lparr>daily_loss_accumulation := 0\<rparr>)))"

text \<open>\<open>_load_daily_pnl\<close>: the test \<open>exists()\<close> comes before the \<open>try\<close>.\<close>

definition load_daily_pnl :: "host \<Rightarrow> RiskManager \<Rightarrow> unit outcome" where
  "load_daily_pnl h s =
     (case file_exists (daily_pnl_file s) of
        Inl e \<Rightarrow> (Inl e, s)
      | Inr True \<Rightarrow>
          (case load_daily_pnl_try h s of
             (Inr u, s') \<Rightarrow> (Inr u, s')
           | (Inl e, s') \<Rightarrow>
               if is_Exception e then reset_daily_pnl h (s'\<lparr>daily_loss_accumulation := 0\<rparr>)
               else (Inl e, s'))
      | Inr False \<Rightarrow> reset_daily_pnl h s)"

definition cfg_get :: "'a option \<Rightarrow> 'a \<Rightarrow> 'a" where
  "cfg_get v dflt = (case v of None \<Rightarrow> dflt | Some x \<Rightarrow> x)"

text \<open>
  \<open>RiskManager(config, data_dir)\<close>, where the data directory holds \<open>f\<close> as its daily
  file: the constructed object, or the exception that \<open>mkdir\<close> or \<open>_load_daily_pnl\<close>
  raised out of \<open>__init__\<close>.
\<close>

definition RiskManager_init :: "host \<Rightarrow> risk_config \<Rightarrow> disk_file \<Rightarrow> py_error + RiskManager"
  where
  "RiskManager_init h config f =
     (case mkdir_error h of
        Some e \<Rightarrow> Inl e
      | None \<Rightarrow>
          (case load_daily_pnl h
                  \<lparr>account_balance = cfg_get (cfg_account_balance config) 10000,
                   risk_percent = cfg_get (cfg_risk_percent config) 1.75,
                   max_spread_points = cfg_get (cfg_max_spread_points config) 50,
                   max_daily_loss_pct = cfg_get (cfg_max_daily_loss config) 5,
                   max_consecutive_losses = cfg_get (cfg_max_consecutive_losses config) 2,
                   exchange_min_lot_size = cfg_get (cfg_exchange_min_lot_size config) 0.001,
                   daily_pnl_file = f,
                   consecutive_loss_counter = 0,
                   daily_loss_accumulation = 0,
                   shutdown_required = False,
                   shutdown_reason = ''''\<rparr> of
             (Inl e, s) \<Rightarrow> Inl e
           | (Inr u, s) \<Rightarrow> Inr s))"

definition position_size :: "RiskManager \<Rightarrow> real \<Rightarrow> real \<Rightarrow> real" where
  "position_size s entry_price stop_loss =
     (if entry_price = stop_loss then 0
      else
        let risk_amount = account_balance s * (risk_percent s / 100);
            sl_distance = \<bar>entry_price - stop_loss\<bar>;
            calculated_size = risk_amount / sl_distance;
            final_size = max calculated_size (exchange_min_lot_size s)
        in py_round final_size 8)"

definition spread_filter :: "RiskManager \<Rightarrow> real \<Rightarrow> real \<Rightarrow> bool" where
  "spread_filter s bid ask =
     (if bid \<le> 0 \<or> ask \<le> 0 \<or> bid > ask then False
      else
        let spread_points = (ask - bid) / bid * 10000
        in spread_points < max_spread_points s)"

text \<open>
  \<open>track_daily_pnl\<close>: the in-memory accumulation is updated first; the file is then read
  (any failure of the read gives the fresh document), updated and saved. The item
  accesses of the update are outside every \<open>try\<close>.
\<close>

definition bump_counter :: "host \<Rightarrow> string \<Rightarrow> json \<Rightarrow> py_error + json" where
  "bump_counter h k data =
     bind_err (py_get data k (JNum 0)) (\<lambda>v.
     bind_err (py_int h v) (\<lambda>i.
     py_setitem data k (JNum (of_int (i + 1)))))"

definition track_daily_pnl_update :: "host \<Rightarrow> real \<Rightarrow> json \<Rightarrow> py_error + json" where
  "track_daily_pnl_update h pnl data =
     bind_err (py_getitem data ''cumulative_pnl'') (\<lambda>c.
     bind_err (py_float h c) (\<lambda>x.
     bind_err (py_setitem data ''cumulative_pnl'' (JNum (py_round (x + pnl) 8))) (\<lambda>data1.
     bind_err (bump_counter h ''trades_today'' data1) (\<lambda>data2.
     if pnl > 0 then bump_counter h ''winning_trades'' data2
     else bump_counter h ''losing_trades'' data2))))"

definition track_daily_pnl :: "host \<Rightarrow> RiskManager \<Rightarrow> real \<Rightarrow> unit outcome" where
  "track_daily_pnl h s pnl =
     (let s1 = s\<lparr>daily_loss_accumulation := daily_loss_accumulation s + pnl\<rparr>;
          data = (case json_load (daily_pnl_file s1) of
                    Inl e \<Rightarrow> fresh_daily_pnl h
                  | Inr d \<Rightarrow> d)
      in case track_daily_pnl_update h pnl data of
           Inl e \<Rightarrow> (Inl e, s1)
         | Inr data' \<Rightarrow> save_daily_pnl h data' s1)"

definition check_daily_loss_limit :: "RiskManager \<Rightarrow> bool \<times> reason" where
  "check_daily_loss_limit s =
     (let max_daily_loss = account_balance s * (max_daily_loss_pct s / 100)
      in if daily_loss_accumulation s \<le> - max_daily_loss
         then (False, DailyLossLimitExceeded (daily_loss_accumulation s) max_daily_loss)
         else (True, NoReason))"

definition increment_consecutive_losses :: "RiskManager \<Rightarrow> (bool \<times> reason) \<times> RiskManager" where
  "increment_consecutive_losses s =
     (let s1 = s\<lparr>consecutive_loss_counter := consecutive_loss_counter s + 1\<rparr>
      in if consecutive_loss_counter s1 \<ge> max_consecutive_losses s1
         then ((False, ConsecutiveLossLimitReached (consecutive_loss_counter s1)
                         (max_consecutive_losses s1)), s1)
         else ((True, NoReason), s1))"

definition reset_consecutive_losses :: "RiskManager \<Rightarrow> RiskManager" where
  "reset_consecutive_losses s = s\<lparr>consecutive_loss_counter := 0\<rparr>"

definition slippage_tracker :: "RiskManager \<Rightarrow> real \<Rightarrow> real \<Rightarrow> bool \<times> real" where
  "slippage_tracker s expected_price actual_price =
     (if expected_price \<le> 0 then (False, 0)
      else
        let slippage_pct = \<bar>actual_price - expected_price\<bar> / expected_price * 100
        in (slippage_pct < 0.05, slippage_pct))"

record risk_status =
  st_account_balance :: real
  st_daily_loss_accumulation :: real
  st_consecutive_losses :: int
  st_max_daily_loss :: real
  st_shutdown_required :: bool
  st_shutdown_reason :: string

definition get_status :: "RiskManager \<Rightarrow> risk_status" where
  "get_status s =
     \<lparr>st_account_balance = account_balance s,
      st_daily_loss_accumulation = daily_loss_accumulation s,
      st_consecutive_losses = consecutive_loss_counter s,
      st_max_daily_loss = account_balance s * (max_daily_loss_pct s / 100),
      st_shutdown_required = shutdown_required s,
      st_shutdown_reason = shutdown_reason s\<rparr>"

text \<open>
  Every method of the class as an operation on the object, for statements about all of
  them. The value a method returns is dropped here; the object after the call is kept.
\<close>

datatype risk_op =
    LoadDailyPnl
  | ResetDailyPnl
  | SaveDailyPnl json
  | PositionSize real real
  | SpreadFilter real real
  | TrackDailyPnl real
  | CheckDailyLossLimit
  | IncrementConsecutiveLosses
  | ResetConsecutiveLosses
  | SlippageTracker real real
  | GetStatus

fun risk_step :: "host \<Rightarrow> risk_op \<Rightarrow> RiskManager \<Rightarrow> RiskManager" where
  "risk_step h LoadDailyPnl s = snd (load_daily_pnl h s)"
| "risk_step h ResetDailyPnl s = snd (reset_daily_pnl h s)"
| "risk_step h (SaveDailyPnl d) s = snd (save_daily_pnl h d s)"
| "risk_step h (PositionSize e sl) s = s"
| "risk_step h (SpreadFilter b a) s = s"
| "risk_step h (TrackDailyPnl p) s = snd (track_daily_pnl h s p)"
| "risk_step h CheckDailyLossLimit s = s"
| "risk_step h IncrementConsecutiveLosses s = snd (increment_consecutive_losses s)"
| "risk_step h ResetConsecutiveLosses s = reset_consecutive_losses s"
| "risk_step h (SlippageTracker e a) s = s"
| "risk_step h GetStatus s = s"

fun risk_run :: "host \<Rightarrow> risk_op list \<Rightarrow> RiskManager \<Rightarrow> RiskManager" where
  "risk_run h [] s = s"
| "risk_run h (x # xs) s = risk_run h xs (risk_step h x s)"

section \<open>modules/execution.py: StateManager and OrderExecutor\<close>

text \<open>The two paths of the data directory that \<open>StateManager\<close> reads.\<close>

record StateManager =
  trade_history_file :: disk_file
  open_positions_file :: disk_file

text \<open>
  Both readers test \<open>exists()\<close> first, outside any \<open>try\<close>, and then wrap \<open>open\<close> and
  \<open>json.load\<close> in a bare \<open>except\<close>, which catches every exception.
\<close>

definition load_trade_history :: "StateManager \<Rightarrow> py_error + json" where
  "load_trade_history sm =
     bind_err (file_exists (trade_history_file sm)) (\<lambda>ex.
       if \<not> ex then Inr (JArr [])
       else case json_load (trade_history_file sm) of
              Inr j \<Rightarrow> Inr j
            | Inl e \<Rightarrow> Inr (JArr []))"

definition load_open_positions :: "StateManager \<Rightarrow> py_error + json" where
  "load_open_positions sm =
     bind_err (file_exists (open_positions_file sm)) (\<lambda>ex.
       if \<not> ex then Inr (JArr [])
       else case json_load (open_positions_file sm) of
              Inr j \<Rightarrow> Inr j
            | Inl e \<Rightarrow> Inr (JArr []))"

record exec_config =
  cfg_lot_variance_pct :: "real option"
  cfg_tp_sl_variance_pct :: "real option"
  cfg_min_human_delay :: "real option"
  cfg_max_human_delay :: "real option"
  cfg_max_retries :: "int option"
  cfg_retry_initial_delay :: "real option"
  cfg_retry_max_delay :: "real option"
  cfg_retry_backoff_multiplier :: "real option"

record order_request =
  req_symbol :: string
  req_order_type :: string
  req_side :: string
  req_amount :: real
  req_price :: real

text \<open>
  Everything outside the executor that a submission touches. \<open>random_stream\<close> lists the
  successive results of \<open>random.random()\<close> and \<open>gauss_stream\<close> the successive standard
  normal deviates behind \<open>random.gauss\<close>; \<open>slept\<close> logs the arguments of
  \<open>asyncio.sleep\<close> in order; \<open>exchange_replies k\<close> is what the exchange answers to the
  \<open>k\<close>-th call of \<open>create_order\<close> (counted from 0), and \<open>create_order_calls\<close> logs the
  calls made.
\<close>

record exec_world =
  random_stream :: "nat \<Rightarrow> real"
  random_pos :: nat
  gauss_stream :: "nat \<Rightarrow> real"
  gauss_pos :: nat
  slept :: "real list"
  exchange_replies :: "nat \<Rightarrow> py_error + json"
  create_order_calls :: "order_request list"

text \<open>\<open>random.uniform(a, b)\<close> is \<open>a + (b - a) * random()\<close>.\<close>

definition py_uniform :: "real \<Rightarrow> real \<Rightarrow> exec_world \<Rightarrow> real \<times> exec_world" where
  "py_uniform a b w =
     (a + (b - a) * random_stream w (random_pos w), w\<lparr>random_pos := Suc (random_pos w)\<rparr>)"

text \<open>\<open>random.gauss(mu, sigma)\<close> is \<open>mu + z * sigma\<close> for a standard normal deviate \<open>z\<close>.\<close>

definition py_gauss :: "real \<Rightarrow> real \<Rightarrow> exec_world \<Rightarrow> real \<times> exec_world" where
  "py_gauss mu sigma w =
     (mu + gauss_stream w (gauss_pos w) * sigma, w\<lparr>gauss_pos := Suc (gauss_pos w)\<rparr>)"

definition asyncio_sleep :: "real \<Rightarrow> exec_world \<Rightarrow> exec_world" where
  "asyncio_sleep delay w = w\<lparr>slept := slept w @ [delay]\<rparr>"

definition create_order :: "order_request \<Rightarrow> exec_world \<Rightarrow> (py_error + json) \<times> exec_world" where
  "create_order req w =
     (exchange_replies w (length (create_order_calls w)),
      w\<lparr>create_order_calls := create_order_calls w @ [req]\<rparr>)"

text \<open>\<open>str.lower()\<close> on ASCII letters.\<close>

definition py_lower :: "string \<Rightarrow> string" where
  "py_lower s =
     map (\<lambda>c. let n = (of_char c :: nat)
              in if 65 \<le> n \<and> n \<le> 90 then char_of (n + 32) else c) s"

text \<open>
  The two randomisers compute the percentage by which the value moved, for the log line
  only; the division by the base value is a float division and raises on zero.
\<close>

definition randomize_lot_size ::
  "exec_config \<Rightarrow> real \<Rightarrow> exec_world \<Rightarrow> (py_error + real) \<times> exec_world" where
  "randomize_lot_size config base_size w =
     (let variance_pct = cfg_get (cfg_lot_variance_pct config) 3;
          (variance_factor, w1) = py_gauss 1 (variance_pct / 100 / 3) w;
          randomized_size = base_size * variance_factor
      in case py_div (randomized_size - base_size) base_size of
           Inl e \<Rightarrow> (Inl e, w1)
         | Inr q \<Rightarrow> (Inr randomized_size, w1))"

definition randomize_tp_sl ::
  "exec_config \<Rightarrow> real \<Rightarrow> bool \<Rightarrow> exec_world \<Rightarrow> (py_error + real) \<times> exec_world" where
  "randomize_tp_sl config price is_tp w =
     (let variance_pct = cfg_get (cfg_tp_sl_variance_pct config) 1;
          (variance_factor, w1) = py_uniform (1 - variance_pct / 100) (1 + variance_pct / 100) w;
          randomized_price = price * variance_factor
      in case py_div (randomized_price - price) price of
           Inl e \<Rightarrow> (Inl e, w1)
         | Inr q \<Rightarrow> (Inr randomized_price, w1))"

definition randomize_partial_close_percentages ::
  "exec_world \<Rightarrow> (real \<times> real \<times> real) \<times> exec_world" where
  "randomize_partial_close_percentages w =
     (let (tp1_pct, w1) = py_uniform 0.28 0.35 w;
          (tp2_pct, w2) = py_uniform 0.38 0.42 w1;
          runner_pct = 1 - tp1_pct - tp2_pct
      in ((tp1_pct, tp2_pct, runner_pct), w2))"

definition add_human_like_delay :: "exec_config \<Rightarrow> exec_world \<Rightarrow> exec_world" where
  "add_human_like_delay config w =
     (let min_delay = cfg_get (cfg_min_human_delay config) 0.5;
          max_delay = cfg_get (cfg_max_human_delay config) 3.5;
          (delay, w1) = py_uniform min_delay max_delay w
      in asyncio_sleep delay w1)"

text \<open>
  The \<open>for attempt in range(1, max_retries + 1)\<close> loop of \<open>submit_order_with_retry\<close>, from
  the given attempt on. Falling out of the loop reaches the final \<open>return None\<close>.
\<close>

function retry_loop ::
  "exec_config \<Rightarrow> order_request \<Rightarrow> int \<Rightarrow> int \<Rightarrow> exec_world
     \<Rightarrow> (py_error + json option) \<times> exec_world" where
  "retry_loop config req attempt max_retries w =
     (if attempt > max_retries then (Inr None, w)
      else
        case create_order req w of
          (Inr order, w1) \<Rightarrow> (Inr (Some order), w1)
        | (Inl e, w1) \<Rightarrow>
            if \<not> is_Exception e then (Inl e, w1)
            else if attempt < max_retries then
              let initial_delay = cfg_get (cfg_retry_initial_delay config) 0.5;
                  max_delay = cfg_get (cfg_retry_max_delay config) 5;
                  backoff_multiplier = cfg_get (cfg_retry_backoff_multiplier config) 2;
                  delay = min (initial_delay * backoff_multiplier ^ nat (attempt - 1)) max_delay;
                  (jitter, w2) = py_uniform (- 0.1) 0.1 w1;
                  w3 = asyncio_sleep (delay + jitter) w2
              in retry_loop config req (attempt + 1) max_retries w3
            else (Inr None, w1))"
  by pat_completeness auto
termination
  by (relation "measure (\<lambda>(config, req, attempt, max_retries, w). nat (max_retries + 1 - attempt))")
     auto

declare retry_loop.simps [simp del]

definition submit_order_with_retry ::
  "exec_config \<Rightarrow> string \<Rightarrow> string \<Rightarrow> real \<Rightarrow> real \<Rightarrow> real \<Rightarrow> real \<Rightarrow> real \<Rightarrow> exec_world
     \<Rightarrow> (py_error + json option) \<times> exec_world" where
  "submit_order_with_retry config symbol direction position_sz entry_price stop_loss
       tp1_price tp2_price w =
     (let max_retries = cfg_get (cfg_max_retries config) 3
      in case randomize_lot_size config position_sz w of
           (Inl e, w1) \<Rightarrow> (Inl e, w1)
         | (Inr randomized_size, w1) \<Rightarrow>
        (case randomize_tp_sl config tp1_price True w1 of
           (Inl e, w2) \<Rightarrow> (Inl e, w2)
         | (Inr randomized_tp1, w2) \<Rightarrow>
        (case randomize_tp_sl config tp2_price True w2 of
           (Inl e, w3) \<Rightarrow> (Inl e, w3)
         | (Inr randomized_tp2, w3) \<Rightarrow>
        (case randomize_tp_sl config stop_loss False w3 of
           (Inl e, w4) \<Rightarrow> (Inl e, w4)
         | (Inr randomized_sl, w4) \<Rightarrow>
             retry_loop config
               \<lparr>req_symbol = symbol, req_order_type = ''limit'',
                req_side = py_lower direction, req_amount = randomized_size,
                req_price = entry_price\<rparr>
               1 max_retries (add_human_like_delay config w4)))))"

text \<open>
  The spec's words for the retry protocol: an exchange whose every \<open>create_order\<close> call
  fails with an exception that \<open>except Exception\<close> catches, and the backoff delay
  \<open>min(initialDelay * backoffMultiplier^(attempt - 1), maxDelay)\<close> before the jitter.
\<close>

definition always_fails :: "exec_world \<Rightarrow> bool" where
  "always_fails w = (\<forall>k. \<exists>e. exchange_replies w k = Inl e \<and> is_Exception e)"

definition retry_delay :: "exec_config \<Rightarrow> int \<Rightarrow> real" where
  "retry_delay config attempt =
     min (cfg_get (cfg_retry_initial_delay config) 0.5
            * cfg_get (cfg_retry_backoff_multiplier config) 2 ^ nat (attempt - 1))
         (cfg_get (cfg_retry_max_delay config) 5)"

section \<open>Candles\<close>

text \<open>
  A candle dictionary \<open>{timestamp, open, high, low, close, volume}\<close>. The detectors read
  the four prices only.
\<close>

record candle =
  c_timestamp :: int
  c_open :: real
  c_high :: real
  c_low :: real
  c_close :: real
  c_volume :: real

text \<open>
  \<open>utils.validate_ohlc_data\<close>, the check the data streamer applies to every candle it
  takes in. Its tests for missing keys and non-numeric values hold of every \<open>candle\<close>
  record.
\<close>

definition validate_ohlc_data :: "candle \<Rightarrow> bool" where
  "validate_ohlc_data c =
     (if c_high c < c_low c \<or> c_high c < c_open c \<or> c_high c < c_close c
         \<or> c_low c > c_open c \<or> c_low c > c_close c then False
      else if c_volume c < 0 then False
      else True)"

text \<open>
  \<open>xs[-k]\<close> for \<open>1 \<le> k \<le> len(xs)\<close>, \<open>xs[-n:]\<close> (which is all of \<open>xs\<close> when \<open>n\<close> is 0),
  and \<open>np.mean\<close> of a non-empty list (of an empty list numpy returns \<open>nan\<close>, which has no
  counterpart here; no call below passes one once its length guard has passed, unless
  the window size is configured as 0).
\<close>

definition from_end :: "'a list \<Rightarrow> nat \<Rightarrow> 'a" where
  "from_end xs k = xs ! (length xs - k)"

definition last_n :: "nat \<Rightarrow> 'a list \<Rightarrow> 'a list" where
  "last_n n xs = (if n = 0 then xs else drop (length xs - n) xs)"

definition np_mean :: "real list \<Rightarrow> real" where
  "np_mean xs = sum_list xs / of_nat (length xs)"

section \<open>modules/support\_resistance.py: SupportResistanceDetector\<close>

datatype swing_type = SwingHigh | SwingLow

record swing =
  sw_price :: real
  sw_type :: swing_type
  sw_index :: nat

record zone =
  z_price :: real
  z_type :: swing_type
  z_touches :: nat
  z_strength :: real

record SupportResistanceDetector =
  lookback :: nat
  cluster_tolerance :: real
  min_touches :: int
  candle_count :: nat
  zones :: "zone list"

definition SupportResistanceDetector_init :: "nat \<Rightarrow> real \<Rightarrow> int \<Rightarrow> SupportResistanceDetector" where
  "SupportResistanceDetector_init lb tol mt =
     \<lparr>lookback = lb, cluster_tolerance = tol, min_touches = mt, candle_count = 0, zones = []\<rparr>"

definition is_swing_high :: "nat \<Rightarrow> real list \<Rightarrow> nat \<Rightarrow> bool" where
  "is_swing_high lb highs i =
     list_all (\<lambda>j. \<not> (highs ! i \<le> highs ! (i - j) \<or> highs ! i \<le> highs ! (i + j))) [1..<lb + 1]"

definition is_swing_low :: "nat \<Rightarrow> real list \<Rightarrow> nat \<Rightarrow> bool" where
  "is_swing_low lb lows i =
     list_all (\<lambda>j. \<not> (lows ! i \<ge> lows ! (i - j) \<or> lows ! i \<ge> lows ! (i + j))) [1..<lb + 1]"

definition detect_swings :: "SupportResistanceDetector \<Rightarrow> candle list \<Rightarrow> swing list" where
  "detect_swings det candles =
     (let highs = map c_high candles;
          lows = map c_low candles
      in concat (map (\<lambda>i.
           (if is_swing_high (lookback det) highs i
            then [\<lparr>sw_price = highs ! i, sw_type = SwingHigh, sw_index = i\<rparr>] else []) @
           (if is_swing_low (lookback det) lows i
            then [\<lparr>sw_price = lows ! i, sw_type = SwingLow, sw_index = i\<rparr>] else []))
         [lookback det ..< length candles - lookback det]))"

text \<open>The zone that a finished cluster becomes.\<close>

definition cluster_zone :: "swing_type \<Rightarrow> swing list \<Rightarrow> zone" where
  "cluster_zone zone_type current_cluster =
     \<lparr>z_price = np_mean (map sw_price current_cluster),
      z_type = zone_type,
      z_touches = length current_cluster,
      z_strength = min 1 (of_nat (length current_cluster) / 5)\<rparr>"

text \<open>
  The loop over \<open>sorted_swings[1:]\<close>. The current cluster is never empty; it is kept as
  its first member, the anchor, and the members appended after it.
\<close>

fun cluster_loop ::
  "real \<Rightarrow> swing_type \<Rightarrow> swing \<Rightarrow> swing list \<Rightarrow> zone list \<Rightarrow> swing list \<Rightarrow> zone list" where
  "cluster_loop tol zone_type anchor members clustered [] =
     clustered @ [cluster_zone zone_type (anchor # members)]"
| "cluster_loop tol zone_type anchor members clustered (sw # rest) =
     (let tolerance = sw_price anchor * tol
      in if \<bar>sw_price sw - sw_price anchor\<bar> \<le> tolerance
         then cluster_loop tol zone_type anchor (members @ [sw]) clustered rest
         else cluster_loop tol zone_type sw []
                (clustered @ [cluster_zone zone_type (anchor # members)]) rest)"

definition cluster_kind :: "real \<Rightarrow> swing_type \<Rightarrow> swing list \<Rightarrow> zone list" where
  "cluster_kind tol zone_type swing_list =
     (case sort_key sw_price swing_list of
        [] \<Rightarrow> []
      | first # rest \<Rightarrow> cluster_loop tol zone_type first [] [] rest)"

definition cluster_zones :: "SupportResistanceDetector \<Rightarrow> swing list \<Rightarrow> zone list" where
  "cluster_zones det swings =
     (if swings = [] then []
      else
        let highs = filter (\<lambda>s. sw_type s = SwingHigh) swings;
            lows = filter (\<lambda>s. sw_type s = SwingLow) swings;
            zs = cluster_kind (cluster_tolerance det) SwingHigh highs
                 @ cluster_kind (cluster_tolerance det) SwingLow lows
        in filter (\<lambda>z. int (z_touches z) \<ge> min_touches det) zs)"

definition update_zones ::
  "SupportResistanceDetector \<Rightarrow> candle list \<Rightarrow> zone list \<times> SupportResistanceDetector" where
  "update_zones det candles =
     (let det1 = det\<lparr>candle_count := candle_count det + length candles\<rparr>
      in if candle_count det1 \<ge> 100 \<or> zones det1 = [] then
           let swings = detect_swings det1 candles;
               det2 = det1\<lparr>zones := cluster_zones det1 swings\<rparr>;
               det3 = det2\<lparr>candle_count := 0\<rparr>
           in (zones det3, det3)
         else (zones det1, det1))"

text \<open>What a rebuild stores: the clustering of the swings of the candles handed in.\<close>

definition rebuild_zones :: "SupportResistanceDetector \<Rightarrow> candle list \<Rightarrow> zone list" where
  "rebuild_zones det candles = cluster_zones det (detect_swings det candles)"

text \<open>
  A sequence of \<open>update_zones\<close> calls on one detector: the zone list each call returns, in
  order, and the detector after the last call.
\<close>

fun update_zones_seq ::
  "SupportResistanceDetector \<Rightarrow> candle list list \<Rightarrow> zone list list \<times> SupportResistanceDetector"
  where
  "update_zones_seq det [] = ([], det)"
| "update_zones_seq det (candles # calls) =
     (let (zs, det') = update_zones det candles;
          (rest, det'') = update_zones_seq det' calls
      in (zs # rest, det''))"

text \<open>
  The spec's words for what a call brings: the candles of the call that are new, that is,
  whose timestamp is not among those of the candles already handed in.
\<close>

definition new_candles :: "candle list \<Rightarrow> candle list \<Rightarrow> candle list" where
  "new_candles seen candles =
     filter (\<lambda>c. c_timestamp c \<notin> set (map c_timestamp seen)) candles"

section \<open>modules/breakout.py: BreakoutEngine\<close>

record BreakoutEngine =
  compression_candles :: "nat \<times> nat"
  atr_threshold :: real
  min_body_ratio :: real
  max_wick_ratio :: real

text \<open>The true range of candle \<open>i\<close>, as both loops of the module compute it.\<close>

definition true_range :: "candle list \<Rightarrow> nat \<Rightarrow> real" where
  "true_range candles i =
     (let high = c_high (candles ! i);
          low = c_low (candles ! i);
          close_prev = (if i > 0 then c_close (candles ! (i - 1)) else c_close (candles ! i))
      in max (high - low) (max \<bar>high - close_prev\<bar> \<bar>low - close_prev\<bar>))"

definition calculate_atr :: "candle list \<Rightarrow> nat \<Rightarrow> real option" where
  "calculate_atr candles period =
     (if length candles < period then None
      else
        let tr_values = map (true_range candles) [0..<length candles]
        in Some (np_mean (last_n period tr_values)))"

record compression_result =
  compressed :: bool
  candle_cnt :: nat
  comp_avg_atr :: real

definition detect_compression :: "BreakoutEngine \<Rightarrow> candle list \<Rightarrow> compression_result" where
  "detect_compression eng candles =
     (let n = fst (compression_candles eng)
      in if length candles < n then \<lparr>compressed = False, candle_cnt = 0, comp_avg_atr = 0\<rparr>
         else
           let atr_values = map (true_range candles) [0..<length candles - 1]
           in if length atr_values < n
              then \<lparr>compressed = False, candle_cnt = 0, comp_avg_atr = 0\<rparr>
              else
                let recent_atr = last_n n atr_values;
                    is_decreasing =
                      list_all (\<lambda>i. recent_atr ! i \<ge> recent_atr ! (i + 1))
                        [0..<length recent_atr - 1]
                in \<lparr>compressed = is_decreasing, candle_cnt = n,
                    comp_avg_atr = np_mean recent_atr\<rparr>)"

record spike_result =
  spike :: bool
  current_atr :: real
  spike_avg_atr :: real
  ratio :: real

definition detect_atr_spike :: "BreakoutEngine \<Rightarrow> candle list \<Rightarrow> spike_result" where
  "detect_atr_spike eng candles =
     (if length candles < 50
      then \<lparr>spike = False, current_atr = 0, spike_avg_atr = 0, ratio = 0\<rparr>
      else
        case (calculate_atr (last_n 20 candles) 14, calculate_atr candles 50) of
          (Some cur, Some hist) \<Rightarrow>
            (let r = (if hist > 0 then cur / hist else 0)
             in \<lparr>spike = (r > atr_threshold eng), current_atr = cur,
                 spike_avg_atr = hist, ratio = r\<rparr>)
        | _ \<Rightarrow> \<lparr>spike = False, current_atr = 0, spike_avg_atr = 0, ratio = 0\<rparr>)"

datatype direction = Up | Down | NoDirection

record body_wick_result =
  valid :: bool
  body_ratio :: real
  wick_ratio :: real
  bw_direction :: direction

text \<open>
  The three divisions by the full range are float divisions; the test \<open>full_range == 0\<close>
  comes before them.
\<close>

definition validate_body_wick :: "BreakoutEngine \<Rightarrow> candle \<Rightarrow> py_error + body_wick_result" where
  "validate_body_wick eng c =
     (let full_range = c_high c - c_low c
      in if full_range = 0
         then Inr \<lparr>valid = False, body_ratio = 0, wick_ratio = 0, bw_direction = NoDirection\<rparr>
         else
           let body_range = \<bar>c_close c - c_open c\<bar>
           in bind_err (py_div body_range full_range) (\<lambda>br.
              bind_err (if c_close c > c_open c
                        then bind_err (py_div (c_open c - c_low c) full_range)
                               (\<lambda>r. Inr (Up, r))
                        else bind_err (py_div (c_high c - c_open c) full_range)
                               (\<lambda>r. Inr (Down, r)))
                (\<lambda>(dir, opposite_wick_ratio).
                   Inr \<lparr>valid = (br \<ge> min_body_ratio eng
                                  \<and> opposite_wick_ratio \<le> max_wick_ratio eng),
                        body_ratio = br, wick_ratio = opposite_wick_ratio,
                        bw_direction = dir\<rparr>)))"

datatype signal = LONG | SHORT | NONE

record breakout_details =
  d_compression :: compression_result
  d_atr_spike :: spike_result
  d_body_wick :: body_wick_result

record breakout_signal =
  sig :: signal
  strength :: real
  details :: "breakout_details option"

definition generate_breakout_signal ::
  "BreakoutEngine \<Rightarrow> candle list \<Rightarrow> py_error + breakout_signal" where
  "generate_breakout_signal eng candles =
     (if length candles < 20 then Inr \<lparr>sig = NONE, strength = 0, details = None\<rparr>
      else
        let current_candle = from_end candles 1;
            compression = detect_compression eng candles;
            atr_spike = detect_atr_spike eng candles
        in bind_err (validate_body_wick eng current_candle) (\<lambda>body_wick.
             let all_valid = (compressed compression \<and> spike atr_spike \<and> valid body_wick);
                 det = \<lparr>d_compression = compression, d_atr_spike = atr_spike,
                        d_body_wick = body_wick\<rparr>
             in if \<not> all_valid then Inr \<lparr>sig = NONE, strength = 0, details = Some det\<rparr>
                else
                  bind_err (py_div (ratio atr_spike) (atr_threshold eng)) (\<lambda>q.
                    Inr \<lparr>sig = (if bw_direction body_wick = Up then LONG else SHORT),
                         strength = min 1 (q * body_ratio body_wick),
                         details = Some det\<rparr>)))"

section \<open>modules/price\_action.py: PriceActionAnalyzer\<close>

record PriceActionAnalyzer =
  min_confirmations :: int

record pattern_result =
  detected :: bool
  confidence :: real

definition not_detected :: pattern_result where
  "not_detected = \<lparr>detected = False, confidence = 0\<rparr>"

definition found :: "real \<Rightarrow> pattern_result" where
  "found conf = \<lparr>detected = True, confidence = conf\<rparr>"

text \<open>\<open>max(xs)\<close> and \<open>min(xs)\<close> on a list; Python raises \<open>ValueError\<close> on an empty one.\<close>

fun py_max :: "real list \<Rightarrow> py_error + real" where
  "py_max [] = Inl ValueError"
| "py_max (x # xs) = Inr (fold max xs x)"

fun py_min :: "real list \<Rightarrow> py_error + real" where
  "py_min [] = Inl ValueError"
| "py_min (x # xs) = Inr (fold min xs x)"

definition detect_engulfing :: "candle list \<Rightarrow> py_error + pattern_result" where
  "detect_engulfing candles =
     (if length candles < 2 then Inr not_detected
      else
        let prev = from_end candles 2;
            curr = from_end candles 1;
            prev_body = \<bar>c_close prev - c_open prev\<bar>;
            curr_body = \<bar>c_close curr - c_open curr\<bar>;
            prev_range = c_high prev - c_low prev
        in if prev_range = 0 then Inr not_detected
           else
             let engulfs = (c_high curr > c_high prev \<and> c_low curr < c_low prev
                            \<and> curr_body > prev_body)
             in if engulfs
                then bind_err (py_div curr_body prev_range) (\<lambda>q. Inr (found (min 1 q)))
                else Inr not_detected)"

definition detect_pinbar :: "candle list \<Rightarrow> py_error + pattern_result" where
  "detect_pinbar candles =
     (if length candles < 1 then Inr not_detected
      else
        let c = from_end candles 1;
            body = \<bar>c_close c - c_open c\<bar>;
            full_range = c_high c - c_low c
        in if full_range = 0 then Inr not_detected
           else
             bind_err (py_div body full_range) (\<lambda>br.
               if br < 0.3 then
                 bind_err (if c_close c > c_open c
                           then py_div (c_high c - c_close c) full_range
                           else py_div (c_close c - c_low c) full_range)
                   (\<lambda>long_wick_ratio.
                      if long_wick_ratio > 0.4
                      then Inr (found (min 1 long_wick_ratio * (1 - br)))
                      else Inr not_detected)
               else Inr not_detected))"

definition detect_morning_star :: "candle list \<Rightarrow> py_error + pattern_result" where
  "detect_morning_star candles =
     (if length candles < 3 then Inr not_detected
      else
        let c1 = from_end candles 3;
            c2 = from_end candles 2;
            c3 = from_end candles 1;
            c1_down = (c_close c1 < c_open c1);
            c2_small = (\<bar>c_close c2 - c_open c2\<bar> < (c_high c1 - c_low c1) * 0.5);
            c3_up = (c_close c3 > c_open c3)
        in if c1_down \<and> c2_small \<and> c3_up
           then bind_err (py_div (c_close c3 - c_open c1) (c_high c1 - c_low c1))
                  (\<lambda>q. Inr (found (max 0.5 (min 1 q))))
           else Inr not_detected)"

definition detect_evening_star :: "candle list \<Rightarrow> py_error + pattern_result" where
  "detect_evening_star candles =
     (if length candles < 3 then Inr not_detected
      else
        let c1 = from_end candles 3;
            c2 = from_end candles 2;
            c3 = from_end candles 1;
            c1_up = (c_close c1 > c_open c1);
            c2_small = (\<bar>c_close c2 - c_open c2\<bar> < (c_high c1 - c_low c1) * 0.5);
            c3_down = (c_close c3 < c_open c3)
        in if c1_up \<and> c2_small \<and> c3_down
           then bind_err (py_div (c_close c1 - c_open c3) (c_high c1 - c_low c1))
                  (\<lambda>q. Inr (found (max 0.5 (min 1 q))))
           else Inr not_detected)"

definition detect_break_of_structure :: "candle list \<Rightarrow> py_error + pattern_result" where
  "detect_break_of_structure candles =
     (if length candles < 5 then Inr not_detected
      else
        let recent = last_n 5 candles;
            highs = map c_high recent;
            lows = map c_low recent
        in bind_err (py_max (butlast highs)) (\<lambda>swing_high.
           bind_err (py_min (butlast lows)) (\<lambda>swing_low.
             let current = from_end candles 1;
                 bos_up = (c_close current > swing_high \<and> c_close current > c_open current);
                 bos_down = (c_close current < swing_low \<and> c_close current < c_open current)
             in if bos_up
                then bind_err (py_div (c_close current - swing_high) swing_high)
                       (\<lambda>q. Inr (found (min 1 q)))
                else if bos_down
                then bind_err (py_div (swing_low - c_close current) swing_low)
                       (\<lambda>q. Inr (found (min 1 q)))
                else Inr not_detected)))"

definition detect_fair_value_gap :: "candle list \<Rightarrow> py_error + pattern_result" where
  "detect_fair_value_gap candles =
     (if length candles < 2 then Inr not_detected
      else
        let prev = from_end candles 2;
            curr = from_end candles 1;
            gap_up = (c_low curr > c_high prev);
            gap_down = (c_high curr < c_low prev)
        in if gap_up
           then bind_err (py_div (c_low curr - c_high prev) (c_high prev))
                  (\<lambda>q. Inr (found (min 1 q)))
           else if gap_down
           then bind_err (py_div (c_low prev - c_high curr) (c_low prev))
                  (\<lambda>q. Inr (found (min 1 q)))
           else Inr not_detected)"

text \<open>
  The moving-average series is a list whose entries may be \<open>None\<close> (as
  \<open>calculate_ema_series\<close> pads it); comparing a float with \<open>None\<close> raises \<open>TypeError\<close>.
\<close>

definition detect_ema_retest :: "candle list \<Rightarrow> real option list \<Rightarrow> py_error + pattern_result"
  where
  "detect_ema_retest candles ema_values =
     (if length candles < 10 \<or> length ema_values < 2 then Inr not_detected
      else
        let current = from_end candles 1;
            previous = from_end candles 2
        in case from_end ema_values 2 of
             None \<Rightarrow> Inl TypeError
           | Some prev_ema \<Rightarrow>
               (case from_end ema_values 1 of
                  None \<Rightarrow> Inl TypeError
                | Some curr_ema \<Rightarrow>
                    let prev_above = (c_close previous > prev_ema);
                        curr_below = (c_close current < curr_ema);
                        curr_above = (c_close current > curr_ema);
                        near = (\<bar>c_close current - curr_ema\<bar> < curr_ema * 0.005);
                        retest_down = (prev_above \<and> (curr_below \<or> near));
                        retest_up = (\<not> prev_above \<and> (curr_above \<or> near))
                    in if retest_down \<or> retest_up
                       then bind_err (py_div \<bar>c_close current - curr_ema\<bar> curr_ema)
                              (\<lambda>distance. Inr (found (1 - min 1 (distance / 0.01))))
                       else Inr not_detected))"

text \<open>
  The loop over the zones: the first zone that the close has come near to from the
  other side decides. A zone record always has its strength, so the default of
  \<open>zone.get('strength', 0.5)\<close> is never taken.
\<close>

fun sr_retest_loop :: "candle \<Rightarrow> candle \<Rightarrow> zone list \<Rightarrow> pattern_result" where
  "sr_retest_loop current previous [] = not_detected"
| "sr_retest_loop current previous (z # zs) =
     (let zone_price = z_price z;
          tolerance = zone_price * 0.01;
          prev_above = (c_close previous > zone_price);
          curr_near = (\<bar>c_close current - zone_price\<bar> < tolerance)
      in if curr_near \<and> prev_above \<noteq> (c_close current > zone_price)
         then found (min 1 (z_strength z * 1.5))
         else sr_retest_loop current previous zs)"

definition detect_sr_retest :: "candle list \<Rightarrow> zone list \<Rightarrow> py_error + pattern_result" where
  "detect_sr_retest candles sr_zones =
     (if length candles < 2 \<or> sr_zones = [] then Inr not_detected
      else Inr (sr_retest_loop (from_end candles 1) (from_end candles 2) sr_zones))"

text \<open>
  The list \<open>patterns\<close> that \<open>calculate_confirmation_score\<close> builds: the six patterns that
  need candles only, then the moving-average retest when a non-empty series is given and
  evaluating it raises neither \<open>TypeError\<close> nor \<open>ValueError\<close>, then the zone retest when a
  non-empty zone list is given.
\<close>

definition base_patterns :: "candle list \<Rightarrow> py_error + (string \<times> pattern_result) list" where
  "base_patterns candles =
     bind_err (detect_engulfing candles) (\<lambda>r1.
     bind_err (detect_pinbar candles) (\<lambda>r2.
     bind_err (detect_morning_star candles) (\<lambda>r3.
     bind_err (detect_evening_star candles) (\<lambda>r4.
     bind_err (detect_break_of_structure candles) (\<lambda>r5.
     bind_err (detect_fair_value_gap candles) (\<lambda>r6.
       Inr [(''engulfing'', r1), (''pinbar'', r2), (''morning_star'', r3),
            (''evening_star'', r4), (''bos'', r5), (''fvg'', r6)]))))))"

definition ema_patterns ::
  "candle list \<Rightarrow> real option list option \<Rightarrow> py_error + (string \<times> pattern_result) list" where
  "ema_patterns candles ema_values =
     (case ema_values of
        None \<Rightarrow> Inr []
      | Some es \<Rightarrow>
          if length es > 0 then
            (case detect_ema_retest candles es of
               Inr r \<Rightarrow> Inr [(''ema_retest'', r)]
             | Inl e \<Rightarrow> if e = TypeError \<or> e = ValueError then Inr [] else Inl e)
          else Inr [])"

definition sr_patterns ::
  "candle list \<Rightarrow> zone list option \<Rightarrow> py_error + (string \<times> pattern_result) list" where
  "sr_patterns candles sr_zones =
     (case sr_zones of
        None \<Rightarrow> Inr []
      | Some zs \<Rightarrow>
          if length zs > 0
          then bind_err (detect_sr_retest candles zs) (\<lambda>r. Inr [(''sr_retest'', r)])
          else Inr [])"

definition evaluated_patterns ::
  "candle list \<Rightarrow> zone list option \<Rightarrow> real option list option
     \<Rightarrow> py_error + (string \<times> pattern_result) list" where
  "evaluated_patterns candles sr_zones ema_values =
     bind_err (base_patterns candles) (\<lambda>ps.
     bind_err (ema_patterns candles ema_values) (\<lambda>es.
     bind_err (sr_patterns candles sr_zones) (\<lambda>zs.
       Inr (ps @ es @ zs))))"

record confirmation =
  confirmation_count :: nat
  confirmation_score :: real
  min_met :: bool
  patterns :: "(string \<times> real) list"

definition calculate_confirmation_score ::
  "PriceActionAnalyzer \<Rightarrow> candle list \<Rightarrow> zone list option \<Rightarrow> real option list option
     \<Rightarrow> py_error + confirmation" where
  "calculate_confirmation_score pa candles sr_zones ema_values =
     bind_err (evaluated_patterns candles sr_zones ema_values) (\<lambda>pats.
       let confirmations = map (\<lambda>(name, r). (name, confidence r))
                             (filter (\<lambda>(name, r). detected r) pats);
           cnt = length confirmations;
           score = sum_list (map snd confirmations) / of_nat (max 1 (length pats))
       in Inr \<lparr>confirmation_count = cnt, confirmation_score = score,
               min_met = (int cnt \<ge> min_confirmations pa), patterns = confirmations\<rparr>)"

text \<open>
  The inputs on which the confidences are meant to be read: candles with a positive low
  that does not exceed the high, zones of non-negative strength, and a moving-average
  series whose latest value, when it is a number, is positive (the earlier entries may
  be anything, such as the zeros \<open>TrendAnalyzer.calculate_ema\<close> pads its array with).
\<close>

definition priced :: "candle \<Rightarrow> bool" where
  "priced c = (0 < c_low c \<and> c_low c \<le> c_high c)"

definition sound_zones :: "zone list option \<Rightarrow> bool" where
  "sound_zones sr_zones =
     (case sr_zones of None \<Rightarrow> True | Some zs \<Rightarrow> list_all (\<lambda>z. 0 \<le> z_strength z) zs)"

definition positive_latest :: "real option list option \<Rightarrow> bool" where
  "positive_latest ema_values =
     (case ema_values of
        None \<Rightarrow> True
      | Some es \<Rightarrow>
          es = [] \<or> (case last es of None \<Rightarrow> True | Some v \<Rightarrow> 0 < v))"

text \<open>
  The spec's words for which optional patterns count: the moving-average retest when a
  non-empty series is supplied whose two latest values can be compared with a price
  (they are read only when there are at least 10 candles and 2 values), the zone retest
  when a non-empty zone list is supplied.
\<close>

definition ema_available :: "candle list \<Rightarrow> real option list option \<Rightarrow> bool" where
  "ema_available candles ema_values =
     (case ema_values of
        None \<Rightarrow> False
      | Some es \<Rightarrow>
          es \<noteq> [] \<and>
          \<not> (length candles \<ge> 10 \<and> length es \<ge> 2
              \<and> (from_end es 2 = None \<or> from_end es 1 = None)))"

definition zones_available :: "zone list option \<Rightarrow> bool" where
  "zones_available sr_zones = (case sr_zones of None \<Rightarrow> False | Some zs \<Rightarrow> zs \<noteq> [])"

text \<open>A detector returned, and its confidence is in the unit interval.\<close>

definition sound_result :: "py_error + pattern_result \<Rightarrow> bool" where
  "sound_result x =
     (case x of Inl e \<Rightarrow> False | Inr r \<Rightarrow> 0 \<le> confidence r \<and> confidence r \<le> 1)"

definition unit_confidences :: "(string \<times> pattern_result) list \<Rightarrow> bool" where
  "unit_confidences pats =
     list_all (\<lambda>(name, r). 0 \<le> confidence r \<and> confidence r \<le> 1) pats"

section \<open>Fixtures of the test suite\<close>

text \<open>
  The configuration of \<open>tests/test_risk_execution.py\<close> (which is also every default of
  \<open>RiskManager.__init__\<close>), a host, and a fresh data directory.
\<close>

definition test_config :: risk_config where
  "test_config =
     \<lparr>cfg_account_balance = Some 10000, cfg_risk_percent = Some 1.75,
      cfg_max_spread_points = Some 50, cfg_max_daily_loss = Some 5,
      cfg_max_consecutive_losses = Some 2, cfg_exchange_min_lot_size = Some 0.001\<rparr>"

definition test_host :: host where
  "test_host =
     \<lparr>today = ''2024-01-01'', mkdir_error = None, writable = True,
      str_to_float = (\<lambda>s. None), str_to_int = (\<lambda>s. None)\<rparr>"

text \<open>The object that \<open>RiskManager(config, data_dir=temp_dir)\<close> is in the tests.\<close>

definition test_risk_manager :: RiskManager where
  "test_risk_manager =
     \<lparr>account_balance = 10000, risk_percent = 1.75, max_spread_points = 50,
      max_daily_loss_pct = 5, max_consecutive_losses = 2, exchange_min_lot_size = 0.001,
      daily_pnl_file = Doc (fresh_daily_pnl test_host),
      consecutive_loss_counter = 0, daily_loss_accumulation = 0,
      shutdown_required = False, shutdown_reason = ''''\<rparr>"

text \<open>
  The executor configuration of \<open>tests/test_trading_lifecycle.py\<close>, and a world whose
  exchange fails every call, as the mock of \<open>test_submit_order_with_retry_failure\<close> does.
\<close>

definition test_exec_config :: exec_config where
  "test_exec_config =
     \<lparr>cfg_lot_variance_pct = Some 3, cfg_tp_sl_variance_pct = Some 1,
      cfg_min_human_delay = Some 0.5, cfg_max_human_delay = Some 1,
      cfg_max_retries = Some 3, cfg_retry_initial_delay = Some 0.5,
      cfg_retry_max_delay = Some 5, cfg_retry_backoff_multiplier = Some 2\<rparr>"

definition failing_world :: exec_world where
  "failing_world =
     \<lparr>random_stream = (\<lambda>k. 1 / 2), random_pos = 0, gauss_stream = (\<lambda>k. 0), gauss_pos = 0,
      slept = [], exchange_replies = (\<lambda>k. Inl (ExchangeError ''Connection failed'')),
      create_order_calls = []\<rparr>"

text \<open>A candle whose four prices coincide, two zones, and the detectors with their defaults.\<close>

definition flat_candle :: "real \<Rightarrow> candle" where
  "flat_candle p =
     \<lparr>c_timestamp = 0, c_open = p, c_high = p, c_low = p, c_close = p, c_volume = 0\<rparr>"

definition test_zone :: zone where
  "test_zone = \<lparr>z_price = 100, z_type = SwingHigh, z_touches = 2, z_strength = 0.4\<rparr>"

text \<open>
  A rolling window of 100 five-minute candles, flat at 100 except for two highs of 101,
  and the same window one candle later: its first candle dropped, one new candle added.
\<close>

definition peaked_candle :: "nat \<Rightarrow> candle" where
  "peaked_candle i =
     \<lparr>c_timestamp = int i, c_open = 100, c_high = (if i = 3 \<or> i = 10 then 101 else 100),
      c_low = 100, c_close = 100, c_volume = 0\<rparr>"

definition first_window :: "candle list" where
  "first_window = map peaked_candle [0..<100]"

definition second_window :: "candle list" where
  "second_window = map peaked_candle [1..<101]"

definition fresh_detector :: SupportResistanceDetector where
  "fresh_detector = SupportResistanceDetector_init 3 0.0005 2"

definition peak_zone :: zone where
  "peak_zone = \<lparr>z_price = 101, z_type = SwingHigh, z_touches = 2, z_strength = 0.4\<rparr>"

definition test_engine :: BreakoutEngine where
  "test_engine =
     \<lparr>compression_candles = (20, 40), atr_threshold = 1.5,
      min_body_ratio = 0.6, max_wick_ratio = 0.25\<rparr>"

definition test_analyzer :: PriceActionAnalyzer where
  "test_analyzer = \<lparr>min_confirmations = 2\<rparr>"

definition negative_zone :: zone where
  "negative_zone = \<lparr>z_price = 100.5, z_type = SwingHigh, z_touches = 2, z_strength = - 2\<rparr>"

section \<open>Properties of the risk engine\<close>

lemma test_risk_manager_fields:
  "account_balance test_risk_manager = 10000"
  "risk_percent test_risk_manager = 1.75"
  "max_spread_points test_risk_manager = 50"
  "max_daily_loss_pct test_risk_manager = 5"
  "max_consecutive_losses test_risk_manager = 2"
  "exchange_min_lot_size test_risk_manager = 0.001"
  "consecutive_loss_counter test_risk_manager = 0"
  "daily_loss_accumulation test_risk_manager = 0"
  by (simp_all add: test_risk_manager_def)

text \<open>It is what the constructor returns over a fresh data directory.\<close>

lemma test_risk_manager_constructed:
  "RiskManager_init test_host test_config Missing = Inr test_risk_manager"
  by (simp add: test_risk_manager_def RiskManager_init_def load_daily_pnl_def
      reset_daily_pnl_def save_daily_pnl_def json_dump_def test_host_def
      test_config_def cfg_get_def)

subsection \<open>Position sizing\<close>

lemma py_round_error: "\<bar>py_round x nd - x\<bar> \<le> 1 / (2 * 10 ^ nd)"
proof -
  define y where "y = x * 10 ^ nd"
  define f where "f = \<lfloor>y\<rfloor>"
  define k where "k = (if y - of_int f < 1 / 2 then f
                 else if 1 / 2 < y - of_int f then f + 1
                 else if even f then f else f + 1)"
  have r: "py_round x nd = of_int k / 10 ^ nd"
    by (simp add: py_round_def Let_def y_def f_def k_def)
  have fl: "of_int f \<le> y" "y < of_int f + 1"
    unfolding f_def by linarith+
  have le: "\<bar>of_int k - y\<bar> \<le> 1 / 2"
    using fl by (auto simp: k_def)
  have "py_round x nd - x = (of_int k - y) / 10 ^ nd"
    by (simp add: r y_def field_simps)
  then have "\<bar>py_round x nd - x\<bar> = \<bar>of_int k - y\<bar> / 10 ^ nd"
    by (simp add: abs_divide)
  also have "\<dots> \<le> (1 / 2) / 10 ^ nd"
    by (rule divide_right_mono) (use le in simp_all)
  also have "\<dots> = 1 / (2 * 10 ^ nd)"
    by simp
  finally show ?thesis .
qed

lemma py_round_of_int: "py_round (of_int n / 10 ^ nd) nd = of_int n / 10 ^ nd"
  by (simp add: py_round_def Let_def)

text \<open>
  Claim C1, as the code has it. When entry equals stop-loss \<open>position_size\<close> returns 0.
  Otherwise it returns \<open>max((balance * riskPercent/100) / |entry - stopLoss|, minLot)\<close>
  rounded to 8 decimal places, which is within \<open>5e-9\<close> of the unrounded value. For
  balance 10000, risk 1.75, entry 100 and stop-loss 95 (and a minimum lot of at most 35)
  the result is exactly 35.
\<close>

theorem position_size_rounded:
  "position_size s e e = 0 \<and>
   (e \<noteq> sl \<longrightarrow>
      position_size s e sl =
        py_round (max (account_balance s * (risk_percent s / 100) / \<bar>e - sl\<bar>)
                      (exchange_min_lot_size s)) 8 \<and>
      \<bar>position_size s e sl -
        max (account_balance s * (risk_percent s / 100) / \<bar>e - sl\<bar>)
            (exchange_min_lot_size s)\<bar> \<le> 5 / 10 ^ 9) \<and>
   (account_balance s = 10000 \<and> risk_percent s = 1.75 \<and> exchange_min_lot_size s \<le> 35 \<longrightarrow>
      position_size s 100 95 = 35)"
proof -
  have a: "position_size s e e = 0"
    by (simp add: position_size_def)
  have b: "position_size s e sl =
        py_round (max (account_balance s * (risk_percent s / 100) / \<bar>e - sl\<bar>)
                      (exchange_min_lot_size s)) 8" if "e \<noteq> sl"
    using that by (simp add: position_size_def Let_def)
  have c: "\<bar>py_round x 8 - x\<bar> \<le> 5 / 10 ^ 9" for x
    using py_round_error [of x 8] by simp
  have d: "position_size s 100 95 = 35"
    if "account_balance s = 10000" "risk_percent s = 1.75" "exchange_min_lot_size s \<le> 35"
  proof -
    have "account_balance s * (risk_percent s / 100) / \<bar>100 - 95\<bar> = (35::real)"
      using that(1,2) by simp
    then have "max (account_balance s * (risk_percent s / 100) / \<bar>100 - 95\<bar>)
                 (exchange_min_lot_size s) = 35"
      using that(3) by simp
    moreover have "py_round 35 8 = 35"
      using py_round_of_int [of 3500000000 8] by simp
    moreover have "position_size s 100 95 =
        py_round (max (account_balance s * (risk_percent s / 100) / \<bar>100 - 95\<bar>)
                      (exchange_min_lot_size s)) 8"
      by (simp add: position_size_def Let_def)
    ultimately show ?thesis
      by simp
  qed
  show ?thesis
    using a b c d by metis
qed

theorem position_size_rounded_witness:
  "position_size test_risk_manager 100 95 = 35 \<and>
   position_size test_risk_manager 100 100 = 0 \<and>
   position_size test_risk_manager 100 97 = 5833333333 / 100000000"
proof -
  have "position_size test_risk_manager 100 97 =
          py_round (max (10000 * (1.75 / 100) / \<bar>100 - 97\<bar>) 0.001) 8"
    using position_size_rounded [of test_risk_manager 100 97]
    by (simp add: test_risk_manager_fields)
  moreover have "py_round (max (10000 * (1.75 / 100) / \<bar>100 - 97\<bar>) 0.001) 8
                   = 5833333333 / 100000000"
    by (simp add: py_round_def Let_def)
  ultimately show ?thesis
    using position_size_rounded [of test_risk_manager 100 97]
    by (simp add: test_risk_manager_fields)
qed

text \<open>
  The unrounded formula is not what is returned: with the test configuration, entry 100
  and stop-loss 97 the formula gives \<open>175/3\<close> and the code returns \<open>58.33333333\<close>.
\<close>

theorem position_size_exact_counterexample:
  "position_size test_risk_manager 100 97 \<noteq>
     max (account_balance test_risk_manager * (risk_percent test_risk_manager / 100)
            / \<bar>100 - 97\<bar>)
         (exchange_min_lot_size test_risk_manager)"
  by (simp add: position_size_def Let_def test_risk_manager_fields py_round_def)

subsection \<open>Daily-loss circuit breaker\<close>

text \<open>
  Whatever the daily file holds and whether or not the file update raises,
  \<open>track_daily_pnl\<close> adds the PnL to the in-memory accumulation and leaves the
  configuration and the loss counter alone.
\<close>

lemma track_daily_pnl_memory:
  "daily_loss_accumulation (snd (track_daily_pnl h s pnl)) = daily_loss_accumulation s + pnl"
  "account_balance (snd (track_daily_pnl h s pnl)) = account_balance s"
  "max_daily_loss_pct (snd (track_daily_pnl h s pnl)) = max_daily_loss_pct s"
  "consecutive_loss_counter (snd (track_daily_pnl h s pnl)) = consecutive_loss_counter s"
  by (simp_all add: track_daily_pnl_def save_daily_pnl_def Let_def split: sum.splits)

text \<open>
  Claim C2. With balance 10000, a 5 percent daily limit and nothing accumulated yet:
  after \<open>track_daily_pnl\<close> has recorded -200 and -150, \<open>check_daily_loss_limit\<close> still
  allows trading; after it has also recorded -300 the accumulation is -650, at or below
  the threshold -500, and \<open>check_daily_loss_limit\<close> blocks.
\<close>

theorem daily_loss_breaker:
  assumes "account_balance s = 10000" and "max_daily_loss_pct s = 5"
    and "daily_loss_accumulation s = 0"
  shows "fst (check_daily_loss_limit
                (snd (track_daily_pnl h (snd (track_daily_pnl h s (- 200))) (- 150)))) = True
       \<and> fst (check_daily_loss_limit
                (snd (track_daily_pnl h
                   (snd (track_daily_pnl h (snd (track_daily_pnl h s (- 200))) (- 150)))
                   (- 300)))) = False
       \<and> daily_loss_accumulation
            (snd (track_daily_pnl h
                   (snd (track_daily_pnl h (snd (track_daily_pnl h s (- 200))) (- 150)))
                   (- 300))) = - 650
       \<and> - (account_balance s * (max_daily_loss_pct s / 100)) = - 500"
  using assms by (simp add: check_daily_loss_limit_def track_daily_pnl_memory)

theorem daily_loss_breaker_witness:
  "fst (check_daily_loss_limit
          (snd (track_daily_pnl test_host
             (snd (track_daily_pnl test_host test_risk_manager (- 200))) (- 150)))) = True
   \<and> fst (check_daily_loss_limit
          (snd (track_daily_pnl test_host
             (snd (track_daily_pnl test_host
                (snd (track_daily_pnl test_host test_risk_manager (- 200))) (- 150)))
             (- 300)))) = False"
  using daily_loss_breaker [of test_risk_manager test_host]
  by (simp add: test_risk_manager_fields)

subsection \<open>Consecutive-loss circuit breaker\<close>

lemma risk_step_counter:
  "x \<noteq> ResetConsecutiveLosses \<Longrightarrow>
     consecutive_loss_counter s \<le> consecutive_loss_counter (risk_step h x s)"
  by (cases x)
     (simp_all add: track_daily_pnl_memory increment_consecutive_losses_def Let_def
        load_daily_pnl_def load_daily_pnl_try_def reset_daily_pnl_def save_daily_pnl_def
        split: sum.splits prod.splits if_splits bool.splits)

lemma risk_run_counter:
  "ResetConsecutiveLosses \<notin> set ops \<Longrightarrow>
     consecutive_loss_counter s \<le> consecutive_loss_counter (risk_run h ops s)"
proof (induction ops arbitrary: s)
  case Nil
  then show ?case by simp
next
  case (Cons x xs)
  have "consecutive_loss_counter s \<le> consecutive_loss_counter (risk_step h x s)"
    using Cons.prems by (intro risk_step_counter) auto
  also have "\<dots> \<le> consecutive_loss_counter (risk_run h xs (risk_step h x s))"
    using Cons.prems by (intro Cons.IH) auto
  finally show ?case by simp
qed

text \<open>
  Claim C3. With a limit of 2 and the counter at 0, the first
  \<open>increment_consecutive_losses\<close> sets the counter to 1 and returns True (continue), the
  second sets it to 2 and returns False (blocked). \<open>reset_consecutive_losses\<close> sets the
  counter to 0, and no sequence of the other methods of the class takes a positive
  counter back to 0.
\<close>

theorem consecutive_loss_breaker:
  "(max_consecutive_losses s = 2 \<and> consecutive_loss_counter s = 0 \<longrightarrow>
      fst (fst (increment_consecutive_losses s)) = True
    \<and> consecutive_loss_counter (snd (increment_consecutive_losses s)) = 1
    \<and> fst (fst (increment_consecutive_losses (snd (increment_consecutive_losses s)))) = False
    \<and> consecutive_loss_counter
        (snd (increment_consecutive_losses (snd (increment_consecutive_losses s)))) = 2)
   \<and> consecutive_loss_counter (reset_consecutive_losses s) = 0
   \<and> (0 < consecutive_loss_counter s \<and> ResetConsecutiveLosses \<notin> set ops \<longrightarrow>
        consecutive_loss_counter (risk_run h ops s) \<noteq> 0)"
proof -
  have "consecutive_loss_counter (risk_run h ops s) \<noteq> 0"
    if "0 < consecutive_loss_counter s" "ResetConsecutiveLosses \<notin> set ops"
    using risk_run_counter [OF that(2), of s h] that(1) by simp
  then show ?thesis
    by (simp add: increment_consecutive_losses_def Let_def reset_consecutive_losses_def)
qed

theorem consecutive_loss_breaker_witness:
  "fst (fst (increment_consecutive_losses test_risk_manager)) = True
   \<and> fst (fst (increment_consecutive_losses
                 (snd (increment_consecutive_losses test_risk_manager)))) = False
   \<and> consecutive_loss_counter
       (risk_run test_host
          [TrackDailyPnl (- 10), CheckDailyLossLimit, IncrementConsecutiveLosses, LoadDailyPnl,
           GetStatus]
          (snd (increment_consecutive_losses test_risk_manager))) \<noteq> 0"
proof -
  have c1: "consecutive_loss_counter (snd (increment_consecutive_losses test_risk_manager)) = 1"
    by (simp add: increment_consecutive_losses_def Let_def test_risk_manager_fields)
  have m: "max_consecutive_losses (snd (increment_consecutive_losses test_risk_manager)) = 2"
    by (simp add: increment_consecutive_losses_def Let_def test_risk_manager_fields)
  show ?thesis
    using consecutive_loss_breaker [of test_risk_manager
        "[TrackDailyPnl (- 10), CheckDailyLossLimit, IncrementConsecutiveLosses, LoadDailyPnl,
          GetStatus]" test_host]
      consecutive_loss_breaker [of "snd (increment_consecutive_losses test_risk_manager)"
        "[TrackDailyPnl (- 10), CheckDailyLossLimit, IncrementConsecutiveLosses, LoadDailyPnl,
          GetStatus]" test_host]
    by (simp add: test_risk_manager_fields c1 m)
qed

subsection \<open>Spread gate\<close>

text \<open>What \<open>spread_filter\<close> accepts: a positive, uncrossed quote whose spread in points is
  strictly below the ceiling.\<close>

lemma spread_filter_iff:
  "spread_filter s bid ask \<longleftrightarrow>
     0 < bid \<and> 0 < ask \<and> bid \<le> ask \<and> (ask - bid) / bid * 10000 < max_spread_points s"
  by (auto simp: spread_filter_def Let_def)

text \<open>
  Claim C6, evaluated on the code. With the 50-point ceiling, bid 100 and ask 100.005 is
  accepted and bid 100 and ask 101 is rejected, as the claim says. Bid 100 and ask 100.5
  is a valid quote whose spread is exactly 50 points: it does not exceed the ceiling, and
  \<open>spread_filter\<close> rejects it.
\<close>

theorem spread_filter_rejects_at_ceiling:
  "spread_filter test_risk_manager 100 100.5 = False
   \<and> (100.5 - 100) / 100 * 10000 = max_spread_points test_risk_manager
   \<and> \<not> ((100.5 - 100) / 100 * 10000 > max_spread_points test_risk_manager)
   \<and> spread_filter test_risk_manager 100 100.005 = True
   \<and> spread_filter test_risk_manager 100 101 = False"
  by (simp add: spread_filter_def test_risk_manager_fields)

section \<open>Properties of the durable-state readers\<close>

lemma json_load_error: "json_load f = Inl e \<Longrightarrow> is_Exception e"
  by (cases f) (auto simp: is_Exception_def)

lemma py_get_error: "py_get j k d = Inl e \<Longrightarrow> is_Exception e"
  by (cases j) (auto simp: is_Exception_def)

lemma py_float_error: "py_float h j = Inl e \<Longrightarrow> is_Exception e"
  by (cases j) (auto simp: is_Exception_def split: option.splits)

lemma reset_daily_pnl_returns: "fst (reset_daily_pnl h s) = Inr ()"
  by (simp add: reset_daily_pnl_def save_daily_pnl_def json_dump_def is_Exception_def)

lemma reset_daily_pnl_memory:
  "daily_loss_accumulation (snd (reset_daily_pnl h s)) = daily_loss_accumulation s"
  by (simp add: reset_daily_pnl_def save_daily_pnl_def json_dump_def is_Exception_def)

lemma reset_daily_pnl_file:
  "writable h \<Longrightarrow> daily_pnl_file (snd (reset_daily_pnl h s)) = Doc (fresh_daily_pnl h)"
  by (simp add: reset_daily_pnl_def save_daily_pnl_def json_dump_def)

lemma load_daily_pnl_try_error:
  assumes "load_daily_pnl_try h s = (Inl e, s')"
  shows "is_Exception e"
proof (cases "json_load (daily_pnl_file s)")
  case (Inl a)
  then show ?thesis
    using assms json_load_error [of "daily_pnl_file s" a]
    by (simp add: load_daily_pnl_try_def)
next
  case (Inr data)
  note data = this
  show ?thesis
  proof (cases "py_get data ''date'' JNull")
    case (Inl a)
    then show ?thesis
      using assms data py_get_error [of data "''date''" JNull a]
      by (simp add: load_daily_pnl_try_def)
  next
    case (Inr d)
    show ?thesis
    proof (cases "d = JStr (today h)")
      case True
      then show ?thesis
        using assms data Inr
          py_get_error [of data "''cumulative_pnl''" "JNum 0"]
          py_float_error [of h]
        by (auto simp: load_daily_pnl_try_def bind_err_def split: sum.splits)
    next
      case False
      then show ?thesis
        using assms data Inr reset_daily_pnl_returns [of h "s\<lparr>daily_loss_accumulation := 0\<rparr>"]
        by (auto simp: load_daily_pnl_try_def)
    qed
  qed
qed

lemma load_daily_pnl_returns:
  assumes "daily_pnl_file s \<noteq> Inaccessible"
  shows "fst (load_daily_pnl h s) = Inr ()"
proof (cases "file_exists (daily_pnl_file s)")
  case (Inl e)
  then show ?thesis
    using assms by (cases "daily_pnl_file s") simp_all
next
  case (Inr ex)
  show ?thesis
  proof (cases ex)
    case False
    then show ?thesis
      using Inr by (simp add: load_daily_pnl_def reset_daily_pnl_returns)
  next
    case True
    obtain r s' where p: "load_daily_pnl_try h s = (r, s')"
      by (cases "load_daily_pnl_try h s")
    show ?thesis
    proof (cases r)
      case (Inl e)
      then show ?thesis
        using Inr True p load_daily_pnl_try_error [of h s e s']
        by (simp add: load_daily_pnl_def reset_daily_pnl_returns)
    next
      case (Inr u)
      then show ?thesis
        using \<open>file_exists (daily_pnl_file s) = Inr ex\<close> True p
        by (simp add: load_daily_pnl_def)
    qed
  qed
qed

lemma load_daily_pnl_corrupt:
  assumes "f \<in> {Unreadable, Empty, Garbage}"
  shows "snd (load_daily_pnl h (s\<lparr>daily_pnl_file := f\<rparr>))
           = snd (reset_daily_pnl h (s\<lparr>daily_pnl_file := f, daily_loss_accumulation := 0\<rparr>))"
  using assms
  by (auto simp: load_daily_pnl_def load_daily_pnl_try_def is_Exception_def)

lemma load_daily_pnl_missing:
  "snd (load_daily_pnl h (s\<lparr>daily_pnl_file := Missing\<rparr>))
           = snd (reset_daily_pnl h (s\<lparr>daily_pnl_file := Missing\<rparr>))"
  by (simp add: load_daily_pnl_def)

text \<open>
  Where \<open>exists()\<close> itself returns, the claim's behaviour holds: for a file that is
  missing, unreadable, empty or unparseable the two list readers return the empty list,
  and \<open>_load_daily_pnl\<close> returns, zeroes the accumulation of an existing file and rewrites
  the zeroed document when the directory is writable.
\<close>

lemma readers_default_on_corrupt:
  assumes "f \<in> {Missing, Unreadable, Empty, Garbage}"
  shows "load_trade_history \<lparr>trade_history_file = f, open_positions_file = g\<rparr> = Inr (JArr [])
    \<and> load_open_positions \<lparr>trade_history_file = g, open_positions_file = f\<rparr> = Inr (JArr [])
    \<and> fst (load_daily_pnl h (s\<lparr>daily_pnl_file := f\<rparr>)) = Inr ()
    \<and> (f \<noteq> Missing \<longrightarrow>
         daily_loss_accumulation (snd (load_daily_pnl h (s\<lparr>daily_pnl_file := f\<rparr>))) = 0)
    \<and> (writable h \<longrightarrow>
         daily_pnl_file (snd (load_daily_pnl h (s\<lparr>daily_pnl_file := f\<rparr>)))
           = Doc (fresh_daily_pnl h))"
proof -
  have 1: "load_trade_history \<lparr>trade_history_file = f, open_positions_file = g\<rparr> = Inr (JArr [])"
    using assms by (auto simp: load_trade_history_def bind_err_def)
  have 2: "load_open_positions \<lparr>trade_history_file = g, open_positions_file = f\<rparr> = Inr (JArr [])"
    using assms by (auto simp: load_open_positions_def bind_err_def)
  have 3: "daily_loss_accumulation (snd (load_daily_pnl h (s\<lparr>daily_pnl_file := f\<rparr>))) = 0"
    if "f \<noteq> Missing"
    using assms that load_daily_pnl_corrupt [of f h s]
    by (simp add: reset_daily_pnl_memory)
  have 4: "daily_pnl_file (snd (load_daily_pnl h (s\<lparr>daily_pnl_file := f\<rparr>)))
           = Doc (fresh_daily_pnl h)" if "writable h"
  proof (cases "f = Missing")
    case True
    then show ?thesis
      using that by (simp add: load_daily_pnl_missing reset_daily_pnl_file)
  next
    case False
    then show ?thesis
      using assms that load_daily_pnl_corrupt [of f h s]
      by (simp add: reset_daily_pnl_file)
  qed
  have 5: "fst (load_daily_pnl h (s\<lparr>daily_pnl_file := f\<rparr>)) = Inr ()"
    using assms by (intro load_daily_pnl_returns) auto
  show ?thesis
    using 1 2 3 4 5 by simp
qed

text \<open>
  Claim C9, evaluated on the code. A durable file that cannot be examined (its directory
  denies search permission) is an unreadable file, and the claim has every reader treat
  it as absent. The three readers call \<open>exists()\<close> before their \<open>try\<close>; \<open>exists()\<close>
  raises \<open>PermissionError\<close>, and so do \<open>load_trade_history\<close>, \<open>load_open_positions\<close>,
  \<open>_load_daily_pnl\<close> and, through it, the constructor of \<open>RiskManager\<close>.
\<close>

theorem state_readers_raise_when_inaccessible:
  "load_trade_history \<lparr>trade_history_file = Inaccessible, open_positions_file = g\<rparr>
     = Inl PermissionError
   \<and> load_open_positions \<lparr>trade_history_file = g, open_positions_file = Inaccessible\<rparr>
     = Inl PermissionError
   \<and> fst (load_daily_pnl h (s\<lparr>daily_pnl_file := Inaccessible\<rparr>)) = Inl PermissionError
   \<and> RiskManager_init test_host test_config Inaccessible = Inl PermissionError"
  by (simp add: load_trade_history_def load_open_positions_def load_daily_pnl_def
      RiskManager_init_def bind_err_def test_host_def)

section \<open>Properties of the execution engine\<close>

subsection \<open>Partial-close split\<close>

text \<open>
  Claim C5. For every pair of draws of \<open>random.random()\<close> (each in \<open>[0, 1)\<close>),
  \<open>randomize_partial_close_percentages\<close> returns a target-1 share in \<open>[0.28, 0.35]\<close>, a
  target-2 share in \<open>[0.38, 0.42]\<close>, and the three shares add up to 1 (exactly, over the
  reals).
\<close>

theorem partial_close_split:
  assumes "0 \<le> random_stream w (random_pos w)" and "random_stream w (random_pos w) < 1"
    and "0 \<le> random_stream w (Suc (random_pos w))" and "random_stream w (Suc (random_pos w)) < 1"
  shows "case fst (randomize_partial_close_percentages w) of
           (tp1_pct, tp2_pct, runner_pct) \<Rightarrow>
             0.28 \<le> tp1_pct \<and> tp1_pct \<le> 0.35 \<and> 0.38 \<le> tp2_pct \<and> tp2_pct \<le> 0.42
             \<and> tp1_pct + tp2_pct + runner_pct = 1"
  using assms
  by (simp add: randomize_partial_close_percentages_def py_uniform_def Let_def)

theorem partial_close_split_witness:
  "fst (randomize_partial_close_percentages failing_world) = (0.315, 0.4, 0.285)"
  using partial_close_split [of failing_world]
  by (simp add: randomize_partial_close_percentages_def py_uniform_def failing_world_def)

subsection \<open>Order submission with retries\<close>

lemma retry_loop_done:
  "max_retries < attempt \<Longrightarrow> retry_loop config req attempt max_retries w = (Inr None, w)"
  by (subst retry_loop.simps) simp

lemma retry_loop_last:
  assumes "always_fails w"
  shows "retry_loop config req max_retries max_retries w =
           (Inr None, w\<lparr>create_order_calls := create_order_calls w @ [req]\<rparr>)"
proof -
  obtain e where "exchange_replies w (length (create_order_calls w)) = Inl e" "is_Exception e"
    using assms unfolding always_fails_def by blast
  then show ?thesis
    by (subst retry_loop.simps) (simp add: create_order_def)
qed

lemma retry_loop_again:
  assumes "always_fails w" and "attempt < max_retries"
  shows "retry_loop config req attempt max_retries w =
           retry_loop config req (attempt + 1) max_retries
             (w\<lparr>create_order_calls := create_order_calls w @ [req],
                random_pos := Suc (random_pos w),
                slept := slept w @ [retry_delay config attempt
                           + (- 0.1 + (0.1 - (- 0.1)) * random_stream w (random_pos w))]\<rparr>)"
proof -
  obtain e where "exchange_replies w (length (create_order_calls w)) = Inl e" "is_Exception e"
    using assms(1) unfolding always_fails_def by blast
  then show ?thesis
    using assms(2)
    by (subst retry_loop.simps)
       (simp add: create_order_def py_uniform_def asyncio_sleep_def retry_delay_def Let_def)
qed

lemma always_fails_update [simp]:
  "always_fails (w\<lparr>create_order_calls := c\<rparr>) = always_fails w"
  "always_fails (w\<lparr>random_pos := p\<rparr>) = always_fails w"
  "always_fails (w\<lparr>gauss_pos := g\<rparr>) = always_fails w"
  "always_fails (w\<lparr>slept := sl\<rparr>) = always_fails w"
  by (simp_all add: always_fails_def)

lemma retry_loop_exhausts:
  assumes "always_fails w" and "attempt + int n = max_retries"
  shows "fst (retry_loop config req attempt max_retries w) = Inr None
       \<and> create_order_calls (snd (retry_loop config req attempt max_retries w))
           = create_order_calls w @ replicate (Suc n) req"
  using assms
proof (induction n arbitrary: attempt w)
  case 0
  then show ?case
    by (simp add: retry_loop_last)
next
  case (Suc n)
  define w' where "w' = w\<lparr>create_order_calls := create_order_calls w @ [req],
                random_pos := Suc (random_pos w),
                slept := slept w @ [retry_delay config attempt
                           + (- 0.1 + (0.1 - (- 0.1)) * random_stream w (random_pos w))]\<rparr>"
  have lt: "attempt < max_retries"
    using Suc.prems(2) by simp
  have step: "retry_loop config req attempt max_retries w =
                retry_loop config req (attempt + 1) max_retries w'"
    unfolding w'_def using Suc.prems(1) lt by (rule retry_loop_again)
  have af: "always_fails w'"
    using Suc.prems(1) by (simp add: w'_def)
  have "attempt + 1 + int n = max_retries"
    using Suc.prems(2) by simp
  from Suc.IH [OF af this] show ?case
    by (simp add: step w'_def replicate_app_Cons_same)
qed

text \<open>
  When the size and the three prices are non-zero, the randomisers return and the loop
  starts after the human-like delay.
\<close>

lemma submit_prelude:
  assumes "position_sz \<noteq> 0" "tp1 \<noteq> 0" "tp2 \<noteq> 0" "stop_loss \<noteq> 0"
  shows "submit_order_with_retry config symbol direction position_sz entry_price stop_loss tp1 tp2 w
     = retry_loop config
         \<lparr>req_symbol = symbol, req_order_type = ''limit'', req_side = py_lower direction,
          req_amount = position_sz * (1 + gauss_stream w (gauss_pos w)
                          * (cfg_get (cfg_lot_variance_pct config) 3 / 100 / 3)),
          req_price = entry_price\<rparr>
         1 (cfg_get (cfg_max_retries config) 3)
         (w\<lparr>gauss_pos := Suc (gauss_pos w), random_pos := random_pos w + 4,
            slept := slept w @ [cfg_get (cfg_min_human_delay config) 0.5
               + (cfg_get (cfg_max_human_delay config) 3.5 - cfg_get (cfg_min_human_delay config) 0.5)
                 * random_stream w (random_pos w + 3)]\<rparr>)"
  using assms
  by (simp add: submit_order_with_retry_def randomize_lot_size_def randomize_tp_sl_def
      py_gauss_def py_uniform_def py_div_def Let_def add_human_like_delay_def asyncio_sleep_def
      eval_nat_numeral)

text \<open>
  On such inputs, with three retries configured and an exchange that fails every call,
  the submission makes exactly three calls, sleeps for the human-like delay and then,
  between the attempts, for \<open>min(initialDelay * multiplier^(attempt - 1), maxDelay)\<close>
  plus a jitter in \<open>[-0.1, 0.1)\<close>, and returns \<open>None\<close>.
\<close>

lemma retry_exhaustion:
  assumes "position_sz \<noteq> 0" "tp1 \<noteq> 0" "tp2 \<noteq> 0" "stop_loss \<noteq> 0"
    and "always_fails w" and "cfg_get (cfg_max_retries config) 3 = 3"
  shows "fst (submit_order_with_retry config symbol direction position_sz entry_price stop_loss tp1 tp2 w) = Inr None"
    and "length (create_order_calls (snd (submit_order_with_retry config symbol direction position_sz entry_price stop_loss tp1 tp2 w)))
          = length (create_order_calls w) + 3"
    and "slept (snd (submit_order_with_retry config symbol direction position_sz entry_price stop_loss tp1 tp2 w))
          = slept w @
            [cfg_get (cfg_min_human_delay config) 0.5
               + (cfg_get (cfg_max_human_delay config) 3.5 - cfg_get (cfg_min_human_delay config) 0.5)
                 * random_stream w (random_pos w + 3),
             retry_delay config 1 + (- 0.1 + 0.2 * random_stream w (random_pos w + 4)),
             retry_delay config 2 + (- 0.1 + 0.2 * random_stream w (random_pos w + 5))]"
  using assms
  by (simp_all add: submit_prelude retry_loop_again retry_loop_last eval_nat_numeral)

lemma randomize_lot_size_zero:
  "randomize_lot_size config 0 w = (Inl ZeroDivisionError, w\<lparr>gauss_pos := Suc (gauss_pos w)\<rparr>)"
  by (simp add: randomize_lot_size_def py_gauss_def py_div_def Let_def)

lemma submit_order_zero_size:
  "fst (submit_order_with_retry config symbol direction 0 entry_price stop_loss tp1 tp2 w)
     = Inl ZeroDivisionError
   \<and> create_order_calls
       (snd (submit_order_with_retry config symbol direction 0 entry_price stop_loss tp1 tp2 w))
     = create_order_calls w"
  by (simp add: submit_order_with_retry_def randomize_lot_size_zero)

text \<open>
  Claim C4, evaluated on the code. The size that \<open>position_size\<close> returns when entry
  equals stop-loss is 0. Submitting it to an exchange that fails every call, with three
  retries configured, makes no attempt at all: \<open>randomize_lot_size\<close> divides by the
  base size for its log line, and the \<open>ZeroDivisionError\<close> reaches the caller.
\<close>

theorem submit_order_zero_size_raises:
  "always_fails failing_world
   \<and> position_size test_risk_manager 100 100 = 0
   \<and> fst (submit_order_with_retry test_exec_config ''BTC/USDT'' ''BUY''
            (position_size test_risk_manager 100 100) 100 100 105 110 failing_world)
       = Inl ZeroDivisionError
   \<and> create_order_calls
        (snd (submit_order_with_retry test_exec_config ''BTC/USDT'' ''BUY''
               (position_size test_risk_manager 100 100) 100 100 105 110 failing_world))
       = []"
proof -
  have "always_fails failing_world"
    by (simp add: always_fails_def failing_world_def is_Exception_def)
  moreover have "position_size test_risk_manager 100 100 = 0"
    by (simp add: position_size_def)
  moreover have "create_order_calls failing_world = []"
    by (simp add: failing_world_def)
  ultimately show ?thesis
    by (simp add: submit_order_zero_size)
qed

section \<open>Properties of the zone detector\<close>

lemma rebuild_zones_params:
  "lookback d = lookback det \<Longrightarrow> cluster_tolerance d = cluster_tolerance det \<Longrightarrow>
   min_touches d = min_touches det \<Longrightarrow> rebuild_zones d = rebuild_zones det"
  by (rule ext) (simp add: rebuild_zones_def cluster_zones_def detect_swings_def)

lemma update_zones_cached:
  assumes "candle_count det + length candles < 100" and "zones det \<noteq> []"
  shows "update_zones det candles
           = (zones det, det\<lparr>candle_count := candle_count det + length candles\<rparr>)"
  using assms by (simp add: update_zones_def Let_def)

lemma update_zones_rebuilt:
  assumes "candle_count det + length candles \<ge> 100 \<or> zones det = []"
  shows "update_zones det candles
           = (rebuild_zones det candles,
              det\<lparr>candle_count := 0, zones := rebuild_zones det candles\<rparr>)"
proof -
  have "rebuild_zones (det\<lparr>candle_count := candle_count det + length candles\<rparr>) = rebuild_zones det"
    by (rule rebuild_zones_params) simp_all
  then have "cluster_zones (det\<lparr>candle_count := candle_count det + length candles\<rparr>)
        (detect_swings (det\<lparr>candle_count := candle_count det + length candles\<rparr>) candles)
        = rebuild_zones det candles"
    by (simp add: rebuild_zones_def fun_eq_iff)
  then show ?thesis
    using assms by (auto simp: update_zones_def Let_def)
qed

text \<open>The swings of the two windows, and the zones a rebuild makes of them.\<close>

lemma first_window_swings:
  "detect_swings fresh_detector first_window
     = [\<lparr>sw_price = 101, sw_type = SwingHigh, sw_index = 3\<rparr>,
        \<lparr>sw_price = 101, sw_type = SwingHigh, sw_index = 10\<rparr>]"
  by code_simp

lemma second_window_swings:
  "detect_swings fresh_detector second_window
     = [\<lparr>sw_price = 101, sw_type = SwingHigh, sw_index = 9\<rparr>]"
  by code_simp

lemma first_window_zones: "rebuild_zones fresh_detector first_window = [peak_zone]"
  unfolding rebuild_zones_def first_window_swings by code_simp

lemma second_window_zones: "rebuild_zones fresh_detector second_window = []"
  unfolding rebuild_zones_def second_window_swings by code_simp

lemma fresh_detector_fields:
  "candle_count fresh_detector = 0" "zones fresh_detector = []"
  by (simp_all add: fresh_detector_def SupportResistanceDetector_init_def)

lemma window_lengths: "length first_window = 100" "length second_window = 100"
  by (simp_all add: first_window_def second_window_def)

lemma first_call:
  "update_zones fresh_detector first_window
     = ([peak_zone], fresh_detector\<lparr>candle_count := 0, zones := [peak_zone]\<rparr>)"
  using update_zones_rebuilt [of fresh_detector first_window]
  by (simp add: fresh_detector_fields first_window_zones)

lemma second_call:
  "update_zones (fresh_detector\<lparr>candle_count := 0, zones := [peak_zone]\<rparr>) second_window
     = ([], fresh_detector\<lparr>candle_count := 0, zones := []\<rparr>)"
proof -
  have "rebuild_zones (fresh_detector\<lparr>candle_count := 0, zones := [peak_zone]\<rparr>)
          = rebuild_zones fresh_detector"
    by (rule rebuild_zones_params) simp_all
  then show ?thesis
    using update_zones_rebuilt
            [of "fresh_detector\<lparr>candle_count := 0, zones := [peak_zone]\<rparr>" second_window]
    by (simp add: window_lengths second_window_zones)
qed

text \<open>The second window is the first one moved on by one candle.\<close>

lemma second_window_shift: "second_window = tl first_window @ [peaked_candle 100]"
proof -
  have "[0..<100] = 0 # [1..<100]"
    by (simp add: upt_conv_Cons)
  moreover have "[1..<101] = [1..<100] @ [100]"
    using upt_Suc_append [of 1 100] by simp
  ultimately show ?thesis
    by (simp add: first_window_def second_window_def)
qed

lemma second_window_new: "new_candles first_window second_window = [peaked_candle 100]"
proof -
  have "c_timestamp ` set first_window = (\<lambda>i. c_timestamp (peaked_candle i)) ` {0..<100}"
    by (simp add: first_window_def image_image)
  then have ts: "c_timestamp ` set first_window = int ` {0..<100}"
    by (simp add: peaked_candle_def)
  have old: "filter (\<lambda>c. c_timestamp c \<notin> int ` {0..<100}) (map peaked_candle [1..<100]) = []"
    by (auto simp: filter_empty_conv peaked_candle_def)
  have new: "c_timestamp (peaked_candle 100) \<notin> int ` {0..<100}"
    by (auto simp: peaked_candle_def)
  have "[1..<101] = [1..<100] @ [100]"
    using upt_Suc_append [of 1 100] by simp
  then show ?thesis
    using old new by (simp add: new_candles_def ts second_window_def)
qed

text \<open>
  Claim C7, evaluated on the code. A fresh detector is given a window of 100 candles and
  rebuilds (first access): one zone is stored and the counter is back at 0. The next
  cycle hands in the same window moved on by one candle, as the signal generator does
  every cycle. One new candle has accumulated since the rebuild and a zone is stored,
  so by the claim the stored list is returned unchanged. The code adds the length of
  the whole window to its counter, reaches 100 and rebuilds: the call returns the empty
  list and the stored zone is gone.
\<close>

theorem update_zones_rebuilds_on_rolling_window:
  "update_zones fresh_detector first_window
     = ([peak_zone], fresh_detector\<lparr>candle_count := 0, zones := [peak_zone]\<rparr>)
   \<and> second_window = tl first_window @ [peaked_candle 100]
   \<and> new_candles first_window second_window = [peaked_candle 100]
   \<and> update_zones (snd (update_zones fresh_detector first_window)) second_window
     = ([], fresh_detector\<lparr>candle_count := 0, zones := []\<rparr>)
   \<and> fst (update_zones_seq fresh_detector [first_window, second_window]) = [[peak_zone], []]"
  by (simp add: first_call second_call second_window_shift [symmetric] second_window_new)

section \<open>Properties of the breakout detector\<close>

lemma from_end_last: "xs \<noteq> [] \<Longrightarrow> from_end xs 1 = last xs"
  by (simp add: from_end_def last_conv_nth)

text \<open>
  Claim C10. For every candle list of length at least 20 whose latest candle has high
  equal to low, \<open>generate_breakout_signal\<close> returns (it does not raise) the signal NONE
  with strength 0; the body/wick validation it reports is the invalid one of the
  zero-range guard, reached before any division by the range.
\<close>

theorem flat_candle_never_breaks_out:
  assumes "length candles \<ge> 20" and "c_high (last candles) = c_low (last candles)"
  shows "\<exists>d. generate_breakout_signal eng candles
               = Inr \<lparr>sig = NONE, strength = 0, details = Some d\<rparr>
             \<and> d_body_wick d
               = \<lparr>valid = False, body_ratio = 0, wick_ratio = 0, bw_direction = NoDirection\<rparr>"
proof -
  have "candles \<noteq> []" using assms(1) by auto
  then have "from_end candles 1 = last candles" by (rule from_end_last)
  then have "validate_body_wick eng (from_end candles 1)
        = Inr \<lparr>valid = False, body_ratio = 0, wick_ratio = 0, bw_direction = NoDirection\<rparr>"
    using assms(2) by (simp add: validate_body_wick_def)
  then show ?thesis
    using assms(1) by (simp add: generate_breakout_signal_def bind_err_def Let_def)
qed

theorem flat_candle_never_breaks_out_witness:
  "\<exists>d. generate_breakout_signal test_engine (replicate 20 (flat_candle 100))
               = Inr \<lparr>sig = NONE, strength = 0, details = Some d\<rparr>"
  using flat_candle_never_breaks_out [of "replicate 20 (flat_candle 100)" test_engine]
  by (auto simp: flat_candle_def)

section \<open>Properties of the price-action scorer\<close>

lemma sound_not_detected [simp]: "sound_result (Inr not_detected)"
  by (simp add: sound_result_def not_detected_def)

lemma sound_found: "0 \<le> x \<Longrightarrow> x \<le> 1 \<Longrightarrow> sound_result (Inr (found x))"
  by (simp add: sound_result_def found_def)

lemma sound_found_min: "0 \<le> q \<Longrightarrow> sound_result (Inr (found (min 1 q)))"
  by (simp add: sound_found)

lemma py_div_pos: "0 < b \<Longrightarrow> py_div a b = Inr (a / b)"
  by (simp add: py_div_def)

lemma from_end_mem: "1 \<le> k \<Longrightarrow> k \<le> length xs \<Longrightarrow> from_end xs k \<in> set xs"
  by (simp add: from_end_def)

lemma priced_from_end:
  "list_all priced candles \<Longrightarrow> 1 \<le> k \<Longrightarrow> k \<le> length candles \<Longrightarrow> priced (from_end candles k)"
  using from_end_mem [of k candles] by (simp add: list_all_iff)

lemma sound_engulfing:
  assumes "list_all priced candles"
  shows "sound_result (detect_engulfing candles)"
proof (cases "length candles < 2")
  case True
  then show ?thesis by (simp add: detect_engulfing_def)
next
  case False
  then have "priced (from_end candles 2)"
    using assms by (intro priced_from_end) simp_all
  then have r: "0 \<le> c_high (from_end candles 2) - c_low (from_end candles 2)"
    by (simp add: priced_def)
  show ?thesis
  proof (cases "c_high (from_end candles 2) - c_low (from_end candles 2) = 0")
    case True
    then show ?thesis using False by (simp add: detect_engulfing_def Let_def)
  next
    case nz: False
    then have pos: "0 < c_high (from_end candles 2) - c_low (from_end candles 2)"
      using r by simp
    have "sound_result (Inr (found (min 1
            (\<bar>c_close (from_end candles 1) - c_open (from_end candles 1)\<bar>
              / (c_high (from_end candles 2) - c_low (from_end candles 2))))))"
      using pos by (intro sound_found_min) simp
    then show ?thesis
      using False nz pos
      by (simp add: detect_engulfing_def Let_def bind_err_def py_div_def)
  qed
qed

lemma sound_pinbar:
  assumes "list_all priced candles"
  shows "sound_result (detect_pinbar candles)"
proof (cases "length candles < 1")
  case True
  then show ?thesis by (simp add: detect_pinbar_def)
next
  case False
  define c where "c = from_end candles 1"
  define fr where "fr = c_high c - c_low c"
  define br where "br = \<bar>c_close c - c_open c\<bar> / fr"
  define lw where "lw = (if c_close c > c_open c then (c_high c - c_close c) / fr
                         else (c_close c - c_low c) / fr)"
  have "1 \<le> length candles"
    using False by (cases candles) simp_all
  then have "priced c"
    unfolding c_def using assms by (intro priced_from_end) simp_all
  then have r: "0 \<le> fr"
    by (simp add: priced_def fr_def)
  show ?thesis
  proof (cases "fr = 0")
    case True
    then show ?thesis
      using False by (simp add: detect_pinbar_def Let_def c_def fr_def)
  next
    case nz: False
    then have pos: "0 < fr" using r by simp
    then have br0: "0 \<le> br" by (simp add: br_def)
    have eq: "detect_pinbar candles =
        (if br < 0.3 then (if lw > 0.4 then Inr (found (min 1 lw * (1 - br))) else Inr not_detected)
         else Inr not_detected)"
      using False nz
      by (simp add: detect_pinbar_def Let_def bind_err_def py_div_def c_def fr_def br_def
          lw_def)
    have "sound_result (Inr (found (min 1 lw * (1 - br))))" if "br < 0.3" "lw > 0.4"
    proof (rule sound_found)
      have a: "0 \<le> min 1 lw" "min 1 lw \<le> 1" using that(2) by simp_all
      have b: "0 \<le> 1 - br" "1 - br \<le> 1" using that(1) br0 by simp_all
      show "0 \<le> min 1 lw * (1 - br)" using a(1) b(1) by (rule mult_nonneg_nonneg)
      show "min 1 lw * (1 - br) \<le> 1" using a b by (intro mult_le_one) simp_all
    qed
    then show ?thesis
      by (simp add: eq)
  qed
qed

lemma sound_star:
  "0 < r \<Longrightarrow> sound_result (bind_err (py_div a r) (\<lambda>q. Inr (found (max (1 / 2) (min 1 q)))))"
  by (simp add: py_div_def bind_err_def sound_result_def found_def)

lemma range_pos: "\<bar>x::real\<bar> * 2 < h - l \<Longrightarrow> l < h"
  by linarith

lemma sound_morning_star: "sound_result (detect_morning_star candles)"
  by (auto simp: detect_morning_star_def Let_def intro!: sound_star intro: range_pos)

lemma sound_evening_star: "sound_result (detect_evening_star candles)"
  by (auto simp: detect_evening_star_def Let_def intro!: sound_star intro: range_pos)

lemma fold_max_mem: "fold max xs (x::real) \<in> set (x # xs)"
  by (induction xs arbitrary: x) (auto simp: max_def)

lemma fold_min_mem: "fold min xs (x::real) \<in> set (x # xs)"
  by (induction xs arbitrary: x) (auto simp: min_def)

lemma py_max_pos:
  assumes "xs \<noteq> []" and "\<forall>x \<in> set xs. 0 < x"
  shows "\<exists>m. py_max xs = Inr m \<and> 0 < m"
proof (cases xs)
  case Nil
  then show ?thesis using assms(1) by simp
next
  case (Cons a as)
  then show ?thesis
    using fold_max_mem [of as a] assms(2) by auto
qed

lemma py_min_pos:
  assumes "xs \<noteq> []" and "\<forall>x \<in> set xs. 0 < x"
  shows "\<exists>m. py_min xs = Inr m \<and> 0 < m"
proof (cases xs)
  case Nil
  then show ?thesis using assms(1) by simp
next
  case (Cons a as)
  then show ?thesis
    using fold_min_mem [of as a] assms(2) by auto
qed

lemma set_last_n: "set (last_n n xs) \<subseteq> set xs"
  by (auto simp: last_n_def dest: in_set_dropD)

lemma length_last_n: "0 < n \<Longrightarrow> n \<le> length xs \<Longrightarrow> length (last_n n xs) = n"
  by (simp add: last_n_def)

lemma sound_bos:
  assumes "list_all priced candles"
  shows "sound_result (detect_break_of_structure candles)"
proof (cases "length candles < 5")
  case True
  then show ?thesis by (simp add: detect_break_of_structure_def)
next
  case False
  define recent where "recent = last_n 5 candles"
  have len: "length recent = 5"
    unfolding recent_def using False by (intro length_last_n) simp_all
  have pr: "\<forall>c \<in> set recent. priced c"
    using assms set_last_n [of 5 candles] by (auto simp: recent_def list_all_iff)
  have pos: "\<forall>c \<in> set recent. 0 < c_high c \<and> 0 < c_low c"
    using pr by (fastforce simp: priced_def)
  have "butlast xs \<noteq> []" if "length xs = 5" for xs :: "real list"
    using that by (cases xs rule: rev_cases) auto
  then have ne: "butlast (map c_high recent) \<noteq> []" "butlast (map c_low recent) \<noteq> []"
    using len by simp_all
  have hs: "\<forall>x \<in> set (butlast (map c_high recent)). 0 < x"
    using pos by (auto dest!: in_set_butlastD)
  have ls: "\<forall>x \<in> set (butlast (map c_low recent)). 0 < x"
    using pos by (auto dest!: in_set_butlastD)
  obtain sh where sh: "py_max (butlast (map c_high recent)) = Inr sh" "0 < sh"
    using py_max_pos [OF ne(1) hs] by blast
  obtain sl where sl: "py_min (butlast (map c_low recent)) = Inr sl" "0 < sl"
    using py_min_pos [OF ne(2) ls] by blast
  have up: "sound_result (Inr (found (min 1 ((x - sh) / sh))))" if "x > sh" for x
    using that sh(2) by (intro sound_found_min) simp
  have down: "sound_result (Inr (found (min 1 ((sl - x) / sl))))" if "x < sl" for x
    using that sl(2) by (intro sound_found_min) simp
  show ?thesis
    using False sh sl up down
    by (simp add: detect_break_of_structure_def Let_def bind_err_def py_div_def
        recent_def [symmetric])
qed

lemma sound_fvg:
  assumes "list_all priced candles"
  shows "sound_result (detect_fair_value_gap candles)"
proof (cases "length candles < 2")
  case True
  then show ?thesis by (simp add: detect_fair_value_gap_def)
next
  case False
  then have "priced (from_end candles 2)"
    using assms by (intro priced_from_end) simp_all
  then have p: "0 < c_low (from_end candles 2)" "0 < c_high (from_end candles 2)"
    by (simp_all add: priced_def)
  have up: "sound_result (Inr (found (min 1 ((x - c_high (from_end candles 2)) / c_high (from_end candles 2)))))"
    if "x > c_high (from_end candles 2)" for x
    using that p(2) by (intro sound_found_min) simp
  have down: "sound_result (Inr (found (min 1 ((c_low (from_end candles 2) - x) / c_low (from_end candles 2)))))"
    if "x < c_low (from_end candles 2)" for x
    using that p(1) by (intro sound_found_min) simp
  show ?thesis
    using False p up down
    by (simp add: detect_fair_value_gap_def Let_def bind_err_def py_div_def)
qed

lemma sound_ema:
  assumes "\<forall>v. from_end es 1 = Some v \<longrightarrow> 0 < v"
    and "\<not> (length candles \<ge> 10 \<and> length es \<ge> 2
              \<and> (from_end es 2 = None \<or> from_end es 1 = None))"
  shows "sound_result (detect_ema_retest candles es)"
proof (cases "length candles < 10 \<or> length es < 2")
  case True
  then show ?thesis by (simp add: detect_ema_retest_def)
next
  case False
  then obtain pe ce where e: "from_end es 2 = Some pe" "from_end es 1 = Some ce"
    using assms(2) by auto
  have ce: "0 < ce"
    using assms(1) e(2) by simp
  have "sound_result (Inr (found (1 - min 1 (\<bar>x - ce\<bar> / ce / 0.01))))" for x
  proof (rule sound_found)
    have "0 \<le> \<bar>x - ce\<bar> / ce / 0.01" using ce by simp
    then show "0 \<le> 1 - min 1 (\<bar>x - ce\<bar> / ce / 0.01)" "1 - min 1 (\<bar>x - ce\<bar> / ce / 0.01) \<le> 1"
      by simp_all
  qed
  then show ?thesis
    using False e ce
    by (simp add: detect_ema_retest_def Let_def bind_err_def py_div_def)
qed

lemma sound_sr_loop:
  "\<forall>z \<in> set zs. 0 \<le> z_strength z \<Longrightarrow> sound_result (Inr (sr_retest_loop cur prev zs))"
  by (induction zs) (auto simp: Let_def intro!: sound_found_min)

lemma sound_sr:
  "\<forall>z \<in> set zs. 0 \<le> z_strength z \<Longrightarrow> sound_result (detect_sr_retest candles zs)"
  by (simp add: detect_sr_retest_def sound_sr_loop)

lemma sound_resultE:
  assumes "sound_result x"
  obtains r where "x = Inr r" "0 \<le> confidence r" "confidence r \<le> 1"
  using assms by (cases x) (auto simp: sound_result_def)

lemma base_patterns_sound:
  assumes "list_all priced candles"
  shows "\<exists>ps. base_patterns candles = Inr ps \<and> length ps = 6 \<and> unit_confidences ps"
proof -
  obtain r1 where r1: "detect_engulfing candles = Inr r1" "0 \<le> confidence r1" "confidence r1 \<le> 1"
    using sound_engulfing [OF assms] by (rule sound_resultE)
  obtain r2 where r2: "detect_pinbar candles = Inr r2" "0 \<le> confidence r2" "confidence r2 \<le> 1"
    using sound_pinbar [OF assms] by (rule sound_resultE)
  obtain r3 where r3: "detect_morning_star candles = Inr r3" "0 \<le> confidence r3" "confidence r3 \<le> 1"
    using sound_morning_star by (rule sound_resultE)
  obtain r4 where r4: "detect_evening_star candles = Inr r4" "0 \<le> confidence r4" "confidence r4 \<le> 1"
    using sound_evening_star by (rule sound_resultE)
  obtain r5 where r5: "detect_break_of_structure candles = Inr r5" "0 \<le> confidence r5" "confidence r5 \<le> 1"
    using sound_bos [OF assms] by (rule sound_resultE)
  obtain r6 where r6: "detect_fair_value_gap candles = Inr r6" "0 \<le> confidence r6" "confidence r6 \<le> 1"
    using sound_fvg [OF assms] by (rule sound_resultE)
  show ?thesis
    using r1 r2 r3 r4 r5 r6
    by (simp add: base_patterns_def bind_err_def unit_confidences_def)
qed

lemma ema_patterns_sound:
  assumes "positive_latest ema_values"
  shows "\<exists>es. ema_patterns candles ema_values = Inr es
           \<and> length es = (if ema_available candles ema_values then 1 else 0)
           \<and> unit_confidences es"
proof (cases ema_values)
  case None
  then show ?thesis
    by (simp add: ema_patterns_def ema_available_def unit_confidences_def)
next
  case (Some es)
  have pos: "\<forall>v. from_end es 1 = Some v \<longrightarrow> 0 < v" if ne: "es \<noteq> []"
  proof -
    have "from_end es 1 = last es"
      using ne by (rule from_end_last)
    moreover have "case last es of None \<Rightarrow> True | Some v \<Rightarrow> 0 < v"
      using assms Some ne by (simp add: positive_latest_def)
    ultimately show ?thesis
      by (auto split: option.splits)
  qed
  show ?thesis
  proof (cases "es = []")
    case True
    then show ?thesis
      using Some by (simp add: ema_patterns_def ema_available_def unit_confidences_def)
  next
    case ne: False
    show ?thesis
    proof (cases "length candles \<ge> 10 \<and> length es \<ge> 2
              \<and> (from_end es 2 = None \<or> from_end es 1 = None)")
      case True
      then have "detect_ema_retest candles es = Inl TypeError"
        by (auto simp: detect_ema_retest_def Let_def split: option.splits)
      then show ?thesis
        using Some ne True
        by (simp add: ema_patterns_def ema_available_def unit_confidences_def)
    next
      case False
      obtain r where "detect_ema_retest candles es = Inr r" "0 \<le> confidence r" "confidence r \<le> 1"
        using sound_ema [OF pos [OF ne] False] by (rule sound_resultE)
      then show ?thesis
        using Some ne False
        by (simp add: ema_patterns_def ema_available_def unit_confidences_def)
    qed
  qed
qed

lemma sr_patterns_sound:
  assumes "sound_zones sr_zones"
  shows "\<exists>zs. sr_patterns candles sr_zones = Inr zs
           \<and> length zs = (if zones_available sr_zones then 1 else 0)
           \<and> unit_confidences zs"
proof (cases sr_zones)
  case None
  then show ?thesis
    by (simp add: sr_patterns_def zones_available_def unit_confidences_def)
next
  case (Some zs)
  then have "\<forall>z \<in> set zs. 0 \<le> z_strength z"
    using assms by (simp add: sound_zones_def list_all_iff)
  then obtain r where "detect_sr_retest candles zs = Inr r" "0 \<le> confidence r" "confidence r \<le> 1"
    using sound_sr [of zs candles] by (auto elim: sound_resultE)
  then show ?thesis
    using Some
    by (simp add: sr_patterns_def zones_available_def unit_confidences_def bind_err_def)
qed

lemma detected_sum_bounds:
  assumes "unit_confidences pats"
  shows "0 \<le> sum_list (map (\<lambda>(name, r). confidence r) (filter (\<lambda>(name, r). detected r) pats))
       \<and> sum_list (map (\<lambda>(name, r). confidence r) (filter (\<lambda>(name, r). detected r) pats))
           \<le> of_nat (length pats)"
  using assms
proof (induction pats)
  case Nil
  then show ?case by simp
next
  case (Cons p pats)
  then show ?case
    by (cases p) (auto simp: unit_confidences_def)
qed

text \<open>
  Claim C8, as the code has it. For every list of candles with \<open>0 < low \<le> high\<close>, zones
  of non-negative strength and a moving-average series whose latest value is positive
  (each of the two optional inputs present or absent; the earlier values of the series
  may be anything, zeros included), \<open>calculate_confirmation_score\<close> returns;
  the patterns it evaluated are the six candle patterns, the moving-average retest when
  the series is available and the zone retest when zones are available;
  \<open>confirmation_count\<close> is the number of evaluated patterns that were detected,
  \<open>confirmation_score\<close> is the sum of their confidences divided by the number of patterns
  evaluated, and the score lies in \<open>[0, 1]\<close>.
\<close>

theorem confirmation_score_sound:
  assumes "list_all priced candles" and "sound_zones sr_zones" and "positive_latest ema_values"
  shows "\<exists>pats r.
      evaluated_patterns candles sr_zones ema_values = Inr pats
    \<and> length pats = 6 + (if ema_available candles ema_values then 1 else 0)
                      + (if zones_available sr_zones then 1 else 0)
    \<and> calculate_confirmation_score pa candles sr_zones ema_values = Inr r
    \<and> confirmation_count r = length (filter (\<lambda>(name, r). detected r) pats)
    \<and> confirmation_score r
        = sum_list (map (\<lambda>(name, r). confidence r) (filter (\<lambda>(name, r). detected r) pats))
            / of_nat (length pats)
    \<and> 0 \<le> confirmation_score r \<and> confirmation_score r \<le> 1"
proof -
  obtain ps where ps: "base_patterns candles = Inr ps" "length ps = 6" "unit_confidences ps"
    using base_patterns_sound [OF assms(1)] by blast
  obtain es where es: "ema_patterns candles ema_values = Inr es"
      "length es = (if ema_available candles ema_values then 1 else 0)" "unit_confidences es"
    using ema_patterns_sound [OF assms(3)] by blast
  obtain zs where zs: "sr_patterns candles sr_zones = Inr zs"
      "length zs = (if zones_available sr_zones then 1 else 0)" "unit_confidences zs"
    using sr_patterns_sound [OF assms(2)] by blast
  define pats where "pats = ps @ es @ zs"
  define total where
    "total = sum_list (map (\<lambda>(name, r). confidence r) (filter (\<lambda>(name, r). detected r) pats))"
  have ev: "evaluated_patterns candles sr_zones ema_values = Inr pats"
    by (simp add: evaluated_patterns_def bind_err_def ps es zs pats_def)
  have len: "length pats = 6 + (if ema_available candles ema_values then 1 else 0)
                      + (if zones_available sr_zones then 1 else 0)"
    by (simp add: pats_def ps es zs)
  have "unit_confidences pats"
    using ps(3) es(3) zs(3) by (simp add: pats_def unit_confidences_def)
  then have b: "0 \<le> total" "total \<le> of_nat (length pats)"
    using detected_sum_bounds [of pats] by (simp_all add: total_def)
  have pos: "0 < length pats"
    using len by simp
  have m: "max (Suc 0) (length pats) = length pats"
    using pos by (simp add: max_def Suc_le_eq)
  have tot: "sum_list (map (snd \<circ> (\<lambda>(name, r). (name, confidence r)))
                (filter (\<lambda>(name, r). detected r) pats)) = total"
    by (simp add: total_def comp_def case_prod_unfold)
  define r where "r = \<lparr>confirmation_count = length (filter (\<lambda>(name, r). detected r) pats),
      confirmation_score = total / of_nat (length pats),
      min_met = (int (length (filter (\<lambda>(name, r). detected r) pats)) \<ge> min_confirmations pa),
      patterns = map (\<lambda>(name, r). (name, confidence r)) (filter (\<lambda>(name, r). detected r) pats)\<rparr>"
  have calc: "calculate_confirmation_score pa candles sr_zones ema_values = Inr r"
    by (simp add: calculate_confirmation_score_def ev bind_err_def Let_def m tot r_def)
  have s0: "0 \<le> total / of_nat (length pats)"
    using b(1) by simp
  have s1: "total / of_nat (length pats) \<le> 1"
    using b(2) pos by (simp add: divide_le_eq)
  show ?thesis
    using ev len calc s0 s1 by (intro exI [of _ pats] exI [of _ r]) (simp add: r_def total_def)
qed

theorem confirmation_score_sound_witness:
  "\<exists>r. calculate_confirmation_score test_analyzer (replicate 10 (flat_candle 100))
          (Some [test_zone]) (Some [Some 0, Some 100]) = Inr r
      \<and> 0 \<le> confirmation_score r \<and> confirmation_score r \<le> 1"
  using confirmation_score_sound [of "replicate 10 (flat_candle 100)" "Some [test_zone]"
      "Some [Some 0, Some 100]" test_analyzer]
  by (auto simp: list_all_iff priced_def flat_candle_def sound_zones_def positive_latest_def
      test_zone_def)

lemma from_end_simps:
  "from_end [a, b] (Suc 0) = b" "from_end [a, b] 1 = b" "from_end [a, b] 2 = a"
  by (simp_all add: from_end_def)

lemma gap_engulfing: "detect_engulfing [flat_candle p, flat_candle q] = Inr not_detected"
  by (simp add: detect_engulfing_def from_end_simps flat_candle_def Let_def)

lemma gap_pinbar: "detect_pinbar [flat_candle p, flat_candle q] = Inr not_detected"
  by (simp add: detect_pinbar_def from_end_simps flat_candle_def Let_def)

lemma gap_short:
  "detect_morning_star [a, b] = Inr not_detected"
  "detect_evening_star [a, b] = Inr not_detected"
  "detect_break_of_structure [a, b] = Inr not_detected"
  by (simp_all add: detect_morning_star_def detect_evening_star_def
      detect_break_of_structure_def)

lemma gap_fvg:
  "detect_fair_value_gap [flat_candle (- 1), flat_candle 1] = Inr (found (- 2))"
  "detect_fair_value_gap [flat_candle 0, flat_candle 1] = Inl ZeroDivisionError"
  by (simp_all add: detect_fair_value_gap_def from_end_simps flat_candle_def Let_def
      bind_err_def py_div_def)

lemma gap_base:
  "base_patterns [flat_candle (- 1), flat_candle 1] =
     Inr [(''engulfing'', not_detected), (''pinbar'', not_detected),
          (''morning_star'', not_detected), (''evening_star'', not_detected),
          (''bos'', not_detected), (''fvg'', found (- 2))]"
  "base_patterns [flat_candle 0, flat_candle 1] = Inl ZeroDivisionError"
  by (simp_all add: base_patterns_def gap_engulfing gap_pinbar gap_short gap_fvg bind_err_def)

lemma negative_zone_score:
  "calculate_confirmation_score test_analyzer [flat_candle 100, flat_candle 101]
       (Some [negative_zone]) None
     = Inr \<lparr>confirmation_count = 2, confirmation_score = - (299 / 700), min_met = True,
            patterns = [(''fvg'', 1 / 100), (''sr_retest'', - 3)]\<rparr>"
  by code_simp

lemma negative_average_score:
  "calculate_confirmation_score test_analyzer (replicate 10 (flat_candle 100)) None
       (Some [Some 100, Some (- 100)])
     = Inr \<lparr>confirmation_count = 1, confirmation_score = 201 / 7, min_met = False,
            patterns = [(''ema_retest'', 201)]\<rparr>"
  by code_simp

text \<open>
  Without the restrictions on the inputs the claim fails, and each restriction is needed.
  Candles of constant price -1 and then 1 both pass \<open>validate_ohlc_data\<close>; the gap
  between them is detected with confidence -2 and the score is \<open>-1/3\<close>. With a first
  candle of price 0 instead, the gap's confidence divides by zero and the call raises.
  On candles of positive price, a zone of strength -2 gives the zone retest the
  confidence -3 and the score \<open>-299/700\<close>, and a moving-average series whose latest value
  is -100 gives the retest the confidence 201 and the score \<open>201/7\<close>.
\<close>

theorem confirmation_score_counterexample:
  "validate_ohlc_data (flat_candle (- 1)) \<and> validate_ohlc_data (flat_candle 1)
   \<and> validate_ohlc_data (flat_candle 0)
   \<and> calculate_confirmation_score test_analyzer [flat_candle (- 1), flat_candle 1] None None
       = Inr \<lparr>confirmation_count = 1, confirmation_score = - (1 / 3), min_met = False,
              patterns = [(''fvg'', - 2)]\<rparr>
   \<and> calculate_confirmation_score test_analyzer [flat_candle 0, flat_candle 1] None None
       = Inl ZeroDivisionError
   \<and> calculate_confirmation_score test_analyzer [flat_candle 100, flat_candle 101]
       (Some [negative_zone]) None
       = Inr \<lparr>confirmation_count = 2, confirmation_score = - (299 / 700), min_met = True,
              patterns = [(''fvg'', 1 / 100), (''sr_retest'', - 3)]\<rparr>
   \<and> calculate_confirmation_score test_analyzer (replicate 10 (flat_candle 100)) None
       (Some [Some 100, Some (- 100)])
       = Inr \<lparr>confirmation_count = 1, confirmation_score = 201 / 7, min_met = False,
              patterns = [(''ema_retest'', 201)]\<rparr>"
proof -
  have v: "validate_ohlc_data (flat_candle p)" for p
    by (simp add: validate_ohlc_data_def flat_candle_def)
  have e: "evaluated_patterns [flat_candle (- 1), flat_candle 1] None None =
     Inr [(''engulfing'', not_detected), (''pinbar'', not_detected),
          (''morning_star'', not_detected), (''evening_star'', not_detected),
          (''bos'', not_detected), (''fvg'', found (- 2))]"
    by (simp add: evaluated_patterns_def gap_base ema_patterns_def sr_patterns_def bind_err_def)
  have z: "evaluated_patterns [flat_candle 0, flat_candle 1] None None = Inl ZeroDivisionError"
    by (simp add: evaluated_patterns_def gap_base bind_err_def)
  have c1: "calculate_confirmation_score test_analyzer [flat_candle (- 1), flat_candle 1] None None
       = Inr \<lparr>confirmation_count = 1, confirmation_score = - (1 / 3), min_met = False,
              patterns = [(''fvg'', - 2)]\<rparr>"
    by (simp add: calculate_confirmation_score_def e bind_err_def Let_def not_detected_def
        found_def test_analyzer_def)
  have c2: "calculate_confirmation_score test_analyzer [flat_candle 0, flat_candle 1] None None
       = Inl ZeroDivisionError"
    by (simp add: calculate_confirmation_score_def z bind_err_def)
  show ?thesis
    using v c1 c2 negative_zone_score negative_average_score by simp
qed

end
